theory Spec2Isabelle
  imports Main "HOL-Library.Sublist" "HOL-Library.Monad_Syntax"
begin

section \<open>Python values used by the two modules\<close>

text \<open>
  The sources are \<^verbatim>\<open>clickhouse_backend/management/commands/inspectdb.py\<close> (the
  \<^verbatim>\<open>inspectdb\<close> command with its decoder of ClickHouse type strings) and
  \<^verbatim>\<open>clickhouse_backend/backend/introspection.py\<close> (field types and the extraction
  of constraints and indexes from the text of \<^verbatim>\<open>SHOW CREATE TABLE\<close>).

  A Python \<^verbatim>\<open>str\<close> is modelled as a HOL \<^typ>\<open>string\<close>: a list of characters
  whose code points lie below 256.  The character classes below are Python's classes
  restricted to that range.  An exception is a value of \<open>py_error\<close>; a function that can
  raise returns \<open>py_error + 'a\<close>, with \<open>Inl\<close> for the exception.
\<close>

datatype py_error =
    IndexError | ValueError | KeyError | SyntaxError | UnicodeDecodeError
  | NotImplementedError | OtherError

text \<open>
  What the code takes from outside the two modules:
  \<^item> \<open>DEFAULT_PRECISION\<close> is \<^verbatim>\<open>models.DateTime64Field.DEFAULT_PRECISION\<close>;
  \<^item> \<open>repr_str\<close> is the builtin \<^verbatim>\<open>repr\<close> on a text, given by its code points (it depends
    on the Unicode tables of the interpreter);
  \<^item> \<open>eval_other\<close> is \<^verbatim>\<open>repr(eval(f"b{name}.decode('utf-8')"))\<close> for a \<open>name\<close> that does
    not start with a single quote, where the evaluated text is not a bytes literal.
\<close>

record py_env =
  DEFAULT_PRECISION :: nat
  repr_str :: "nat list \<Rightarrow> string"
  eval_other :: "string \<Rightarrow> py_error + string"

text \<open>\<^verbatim>\<open>s.startswith(w)\<close>, the slice \<^verbatim>\<open>s[a:b]\<close> for \<open>0 \<le> a\<close>, \<open>0 \<le> b\<close>, and
  \<^verbatim>\<open>sep.join(xs)\<close>.  The slice \<^verbatim>\<open>s[a:]\<close> is \<open>drop a s\<close> and \<^verbatim>\<open>s[:b]\<close> is \<open>take b s\<close>;
  neither raises.  An index \<^verbatim>\<open>s[i]\<close> raises \<open>IndexError\<close> unless \<open>i < length s\<close>.\<close>

definition startswith :: "string \<Rightarrow> string \<Rightarrow> bool" where
  "startswith s w = (take (length w) s = w)"

definition slice :: "string \<Rightarrow> nat \<Rightarrow> nat \<Rightarrow> string" where
  "slice s a b = take (b - a) (drop a s)"

fun join :: "string \<Rightarrow> string list \<Rightarrow> string" where
  "join sep [] = []"
| "join sep [x] = x"
| "join sep (x # y # xs) = x @ sep @ join sep (y # xs)"

text \<open>\<^verbatim>\<open>str.isdigit\<close>, \<^verbatim>\<open>str.isdecimal\<close>, \<^verbatim>\<open>str.isalpha\<close>, \<^verbatim>\<open>str.isnumeric\<close> and
  \<^verbatim>\<open>str.isalnum\<close> on one character.  Below 256 the digits are \<open>0\<close> to \<open>9\<close> and the
  superscripts 2, 3 and 1; the numeric characters add the three vulgar fractions.\<close>

definition isdigit :: "char \<Rightarrow> bool" where
  "isdigit c =
     (let n = (of_char c :: nat) in (48 \<le> n \<and> n \<le> 57) \<or> n = 178 \<or> n = 179 \<or> n = 185)"

definition isdecimal :: "char \<Rightarrow> bool" where
  "isdecimal c = (let n = (of_char c :: nat) in 48 \<le> n \<and> n \<le> 57)"

definition isalpha :: "char \<Rightarrow> bool" where
  "isalpha c =
     (let n = (of_char c :: nat) in
      (65 \<le> n \<and> n \<le> 90) \<or> (97 \<le> n \<and> n \<le> 122) \<or> n = 170 \<or> n = 181 \<or> n = 186 \<or>
      (192 \<le> n \<and> n \<le> 214) \<or> (216 \<le> n \<and> n \<le> 246) \<or> (248 \<le> n \<and> n \<le> 255))"

definition isnumeric :: "char \<Rightarrow> bool" where
  "isnumeric c =
     (let n = (of_char c :: nat) in isdigit c \<or> n = 188 \<or> n = 189 \<or> n = 190)"

definition isalnum :: "char \<Rightarrow> bool" where
  "isalnum c = (isalpha c \<or> isdecimal c \<or> isdigit c \<or> isnumeric c)"

text \<open>\<^verbatim>\<open>int(c)\<close> for a string of one character: the value of a decimal digit, else
  \<open>ValueError\<close>.\<close>

definition int_of_char :: "char \<Rightarrow> py_error + nat" where
  "int_of_char c = (if isdecimal c then Inr (of_char c - 48) else Inl ValueError)"


section \<open>inspectdb: the decoder of type strings\<close>

subsection \<open>Scanning loops\<close>

text \<open>\<^verbatim>\<open>", ".join(filter(None, params))\<close>: the empty strings are dropped.\<close>

definition merge_params :: "string list \<Rightarrow> string" where
  "merge_params params = join '', '' (filter (\<lambda>p. p \<noteq> []) params)"

text \<open>The loop \<^verbatim>\<open>while s[i] satisfies P: i += 1\<close>, which reads \<^verbatim>\<open>s[i]\<close> without a bound
  check: it ends at the first index whose character fails \<open>P\<close>, and raises \<open>IndexError\<close>
  when it runs off the end.  It is the loop of the productions \<^verbatim>\<open>FixedString\<close>,
  \<^verbatim>\<open>Decimal\<close> and \<^verbatim>\<open>Enum\<close> (with \<open>isdigit\<close>) and of \<^verbatim>\<open>DateTime64\<close> (with
  \<^verbatim>\<open>!= "'"\<close>).\<close>

function scan_while :: "(char \<Rightarrow> bool) \<Rightarrow> string \<Rightarrow> nat \<Rightarrow> py_error + nat" where
  "scan_while P s i =
     (if i < length s then (if P (s ! i) then scan_while P s (i + 1) else Inr i)
      else Inl IndexError)"
  by pat_completeness auto
termination
  by (relation "measure (\<lambda>(P, s, i). length s - i)") auto

declare scan_while.simps [simp del]

text \<open>The bounded loop of the fallback production:
  \<^verbatim>\<open>while i < length and column_type[i].isalnum(): i += 1\<close>.\<close>

function scan_alnum :: "string \<Rightarrow> nat \<Rightarrow> nat" where
  "scan_alnum s i = (if i < length s \<and> isalnum (s ! i) then scan_alnum s (i + 1) else i)"
  by pat_completeness auto
termination
  by (relation "measure (\<lambda>(s, i). length s - i)") auto

declare scan_alnum.simps [simp del]

text \<open>The first loop of \<^verbatim>\<open>consume_enum_choice\<close>: from index \<open>i\<close> to the closing quote of
  the label, two characters at a time after a backslash, noting whether a backslash was
  followed by \<open>x\<close>.  It returns the index of the closing quote.\<close>

function enum_scan :: "string \<Rightarrow> nat \<Rightarrow> bool \<Rightarrow> py_error + (nat \<times> bool)" where
  "enum_scan s i has_bytes =
     (if i < length s then
        (if s ! i = CHR 0x5C then
           (if i + 1 < length s
            then enum_scan s (i + 2) (if s ! (i + 1) = CHR ''x'' then True else has_bytes)
            else Inl IndexError)
         else if s ! i = CHR 0x27 then Inr (i, has_bytes)
         else enum_scan s (i + 1) has_bytes)
      else Inl IndexError)"
  by pat_completeness auto
termination
  by (relation "measure (\<lambda>(s, i, b). length s - i)") auto

declare enum_scan.simps [simp del]


subsection \<open>Evaluating a label as a bytes literal\<close>

text \<open>
  \<^verbatim>\<open>eval(f"b{name}.decode('utf-8')")\<close>, for a \<open>name\<close> that starts with a single quote: the
  scan above has ended \<open>name\<close> at the first quote that no backslash precedes, which is where
  Python's tokenizer ends the literal too.  The steps are those of the interpreter: line
  ends are normalised, the body may hold only ASCII characters other than NUL and a bare
  line end, and the escapes are decoded as \<^verbatim>\<open>_PyBytes_DecodeEscape\<close> does (an unknown
  escape keeps its backslash; \<^verbatim>\<open>\x\<close> needs two hexadecimal digits).  Every failure of
  these steps is a \<open>SyntaxError\<close>.  Warnings are not errors.
\<close>

definition hex_value :: "char \<Rightarrow> nat option" where
  "hex_value c =
     (let n = (of_char c :: nat) in
      if 48 \<le> n \<and> n \<le> 57 then Some (n - 48)
      else if 97 \<le> n \<and> n \<le> 102 then Some (n - 87)
      else if 65 \<le> n \<and> n \<le> 70 then Some (n - 55)
      else None)"

definition oct_value :: "char \<Rightarrow> nat option" where
  "oct_value c =
     (let n = (of_char c :: nat) in if 48 \<le> n \<and> n \<le> 55 then Some (n - 48) else None)"

text \<open>Up to two more octal digits after the first one: the value and the rest.\<close>

definition octal_more :: "nat \<Rightarrow> string \<Rightarrow> nat \<times> string" where
  "octal_more v s =
     (case s of
        [] \<Rightarrow> (v, s)
      | e # es \<Rightarrow>
          (case oct_value e of
             None \<Rightarrow> (v, s)
           | Some a \<Rightarrow>
               (case es of
                  [] \<Rightarrow> (v * 8 + a, es)
                | f # fs \<Rightarrow>
                    (case oct_value f of
                       None \<Rightarrow> (v * 8 + a, es)
                     | Some b \<Rightarrow> ((v * 8 + a) * 8 + b, fs)))))"

lemma octal_more_length: "length (snd (octal_more v s)) < Suc (Suc (length s))"
  by (simp add: octal_more_def split: list.splits option.splits)

fun translate_newlines :: "string \<Rightarrow> string" where
  "translate_newlines [] = []"
| "translate_newlines [c] = (if c = CHR 0x0D then [CHR 0x0A] else [c])"
| "translate_newlines (c # d # cs) =
     (if c = CHR 0x0D then
        (if d = CHR 0x0A then CHR 0x0A # translate_newlines cs
         else CHR 0x0A # translate_newlines (d # cs))
      else c # translate_newlines (d # cs))"

definition raw_ok :: "char \<Rightarrow> bool" where
  "raw_ok c = ((of_char c :: nat) < 128 \<and> c \<noteq> CHR 0x0A \<and> c \<noteq> CHR 0x00)"

definition cons_ok :: "char \<Rightarrow> py_error + string \<Rightarrow> py_error + string" where
  "cons_ok c r = (case r of Inl e \<Rightarrow> Inl e | Inr bs \<Rightarrow> Inr (c # bs))"

function bytes_literal :: "string \<Rightarrow> py_error + string" where
  "bytes_literal [] = Inr []"
| "bytes_literal (c # cs) =
     (if c \<noteq> CHR 0x5C then
        (if raw_ok c then cons_ok c (bytes_literal cs) else Inl SyntaxError)
      else
        (case cs of
           [] \<Rightarrow> Inl SyntaxError
         | d # ds \<Rightarrow>
             if d = CHR 0x0A then bytes_literal ds
             else if d = CHR 0x5C then cons_ok (CHR 0x5C) (bytes_literal ds)
             else if d = CHR 0x27 then cons_ok (CHR 0x27) (bytes_literal ds)
             else if d = CHR 0x22 then cons_ok (CHR 0x22) (bytes_literal ds)
             else if d = CHR ''b'' then cons_ok (CHR 0x08) (bytes_literal ds)
             else if d = CHR ''f'' then cons_ok (CHR 0x0C) (bytes_literal ds)
             else if d = CHR ''t'' then cons_ok (CHR 0x09) (bytes_literal ds)
             else if d = CHR ''n'' then cons_ok (CHR 0x0A) (bytes_literal ds)
             else if d = CHR ''r'' then cons_ok (CHR 0x0D) (bytes_literal ds)
             else if d = CHR ''v'' then cons_ok (CHR 0x0B) (bytes_literal ds)
             else if d = CHR ''a'' then cons_ok (CHR 0x07) (bytes_literal ds)
             else if d = CHR ''x'' then
               (case ds of
                  h1 # h2 # rest \<Rightarrow>
                    (case hex_value h1 of
                       None \<Rightarrow> Inl SyntaxError
                     | Some a \<Rightarrow>
                         (case hex_value h2 of
                            None \<Rightarrow> Inl SyntaxError
                          | Some b \<Rightarrow> cons_ok (char_of (16 * a + b)) (bytes_literal rest)))
                | _ \<Rightarrow> Inl SyntaxError)
             else
               (case oct_value d of
                  Some v \<Rightarrow>
                    cons_ok (char_of (fst (octal_more v ds)))
                      (bytes_literal (snd (octal_more v ds)))
                | None \<Rightarrow> cons_ok (CHR 0x5C) (bytes_literal cs))))"
  by pat_completeness auto
termination
  apply (relation "measure length")
   apply (simp_all add: octal_more_length)
  done

declare bytes_literal.simps [simp del]

text \<open>\<^verbatim>\<open>bytes.decode('utf-8')\<close>, strict: the shortest encoding only, no surrogates,
  nothing above U+10FFFF.  \<open>None\<close> stands for \<open>UnicodeDecodeError\<close>.\<close>

definition cont :: "char \<Rightarrow> bool" where
  "cont b = (128 \<le> (of_char b :: nat) \<and> (of_char b :: nat) < 192)"

fun utf8_decode :: "string \<Rightarrow> nat list option" where
  "utf8_decode [] = Some []"
| "utf8_decode (b0 # bs) =
     (if (of_char b0 :: nat) < 128 then map_option ((#) (of_char b0)) (utf8_decode bs)
      else if 194 \<le> (of_char b0 :: nat) \<and> (of_char b0 :: nat) < 224 then
        (case bs of
           b1 # r \<Rightarrow>
             if cont b1
             then map_option ((#) ((of_char b0 - 192) * 64 + (of_char b1 - 128))) (utf8_decode r)
             else None
         | _ \<Rightarrow> None)
      else if 224 \<le> (of_char b0 :: nat) \<and> (of_char b0 :: nat) < 240 then
        (case bs of
           b1 # b2 # r \<Rightarrow>
             if cont b1 \<and> cont b2
                \<and> (if (of_char b0 :: nat) = 224 then 160 \<le> (of_char b1 :: nat) else True)
                \<and> (if (of_char b0 :: nat) = 237 then (of_char b1 :: nat) < 160 else True)
             then map_option
                    ((#) ((of_char b0 - 224) * 4096 + (of_char b1 - 128) * 64
                          + (of_char b2 - 128)))
                    (utf8_decode r)
             else None
         | _ \<Rightarrow> None)
      else if 240 \<le> (of_char b0 :: nat) \<and> (of_char b0 :: nat) < 245 then
        (case bs of
           b1 # b2 # b3 # r \<Rightarrow>
             if cont b1 \<and> cont b2 \<and> cont b3
                \<and> (if (of_char b0 :: nat) = 240 then 144 \<le> (of_char b1 :: nat) else True)
                \<and> (if (of_char b0 :: nat) = 244 then (of_char b1 :: nat) < 144 else True)
             then map_option
                    ((#) ((of_char b0 - 240) * 262144 + (of_char b1 - 128) * 4096
                          + (of_char b2 - 128) * 64 + (of_char b3 - 128)))
                    (utf8_decode r)
             else None
         | _ \<Rightarrow> None)
      else None)"

text \<open>\<^verbatim>\<open>repr(eval(f"b{name}.decode('utf-8')"))\<close>: the text between the quotes of \<open>name\<close> is
  \<^verbatim>\<open>name[1:-1]\<close>.\<close>

definition eval_bytes_decode :: "py_env \<Rightarrow> string \<Rightarrow> py_error + string" where
  "eval_bytes_decode E name =
     (if 2 \<le> length name \<and> hd name = CHR 0x27 then
        (case bytes_literal (translate_newlines (butlast (tl name))) of
           Inl e \<Rightarrow> Inl e
         | Inr bs \<Rightarrow>
             (case utf8_decode bs of
                None \<Rightarrow> Inl UnicodeDecodeError
              | Some text \<Rightarrow> Inr (repr_str E text)))
      else eval_other E name)"


subsection \<open>consume_enum_choice\<close>

text \<open>
  \<^verbatim>\<open>
  def consume_enum_choice(self, s):  # 'a' = 1
      has_bytes = False
      i = 1
      while True:
          if s[i] == "\\":  # escape char
              if s[i + 1] == "x":
                  has_bytes = True
              i += 2
              continue
          if s[i] == "'":
              break
          i += 1
      i += 1
      name = s[:i]
      if has_bytes:
          try:
              decoded = eval(f"b{name}.decode('utf-8')")
          except UnicodeDecodeError:
              name = f"b{name}"
          else:
              name = repr(decoded)
      i += 3
      j = i
      while s[i].isdigit():
          i += 1
      value = s[j:i]
      return name, value, s[i:]
  \<close>
  Only \<open>UnicodeDecodeError\<close> is handled; any other exception of the evaluation leaves the
  function.
\<close>

definition consume_enum_choice ::
    "py_env \<Rightarrow> string \<Rightarrow> py_error + (string \<times> string \<times> string)" where
  "consume_enum_choice E s =
     (case enum_scan s 1 False of
        Inl e \<Rightarrow> Inl e
      | Inr (i0, has_bytes) \<Rightarrow>
          (let i = i0 + 1; name = take i s in
           (case (if has_bytes
                  then (case eval_bytes_decode E name of
                          Inl e \<Rightarrow> if e = UnicodeDecodeError then Inr (''b'' @ name) else Inl e
                        | Inr decoded \<Rightarrow> Inr decoded)
                  else Inr name) of
              Inl e \<Rightarrow> Inl e
            | Inr name' \<Rightarrow>
                (case scan_while isdigit s (i + 3) of
                   Inl e \<Rightarrow> Inl e
                 | Inr j \<Rightarrow> Inr (name', slice s (i + 3) j, drop j s)))))"

lemma consume_enum_choice_suffix:
  "consume_enum_choice E s = Inr (n, v, r) \<Longrightarrow> suffix r s"
  by (auto simp: consume_enum_choice_def Let_def suffix_drop
           split: sum.splits prod.splits if_splits)

lemma consume_enum_choice_length:
  "consume_enum_choice E s = Inr (n, v, r) \<Longrightarrow> length r \<le> length s"
  by (rule suffix_length_le) (rule consume_enum_choice_suffix)

text \<open>The loop of the \<^verbatim>\<open>Enum\<close> production:
  \<^verbatim>\<open>
  while remain[0] != ")":
      name, value, remain = self.consume_enum_choice(remain[2:])
      choices.append(f"({value}, {name})")
  \<close>\<close>

function enum_rest ::
    "py_env \<Rightarrow> string \<Rightarrow> string list \<Rightarrow> py_error + (string list \<times> string)" where
  "enum_rest E remain choices =
     (case remain of
        [] \<Rightarrow> Inl IndexError
      | c # _ \<Rightarrow>
          if c \<noteq> CHR '')'' then
            (case consume_enum_choice E (drop 2 remain) of
               Inl e \<Rightarrow> Inl e
             | Inr (name, value, remain') \<Rightarrow>
                 enum_rest E remain' (choices @ [''('' @ value @ '', '' @ name @ '')'']))
          else Inr (choices, remain))"
  by pat_completeness auto
termination
  apply (relation "measure (\<lambda>(E, remain, choices). length remain)")
   apply simp
  apply (auto dest!: consume_enum_choice_length)
  done

declare enum_rest.simps [simp del]

subsection \<open>inspect_field_type\<close>

text \<open>
  \<^verbatim>\<open>inspect_field_type(self, column_type, param="")\<close> is a generator: it yields the pieces
  of the field definition and returns the part of \<open>column_type\<close> that it has not read.  The
  model returns both, the pieces in the order of the yields; an exception ends the
  generator, and the caller, \<^verbatim>\<open>"".join(...)\<close>, then has no text at all, so the model keeps
  only the exception.  The productions are tried in the order of the source.  The model
  takes the type as text, on which \<^verbatim>\<open>ensure_str\<close> (a helper of the package outside these
  two modules, which turns bytes into text) has nothing to do.

  The production \<^verbatim>\<open>DateTime\<close> is
  \<^verbatim>\<open>
  yield f"models.DateTimeField({param})"
  if len(column_type) > 8 and column_type[8] == "(":
      i = 10
      while column_type[i] != "'":
          i += 1
          return column_type[i + 2 :]
  return column_type[8:]
  \<close>
  with the \<^verbatim>\<open>return\<close> inside the loop: when \<^verbatim>\<open>column_type[10]\<close> is not a quote the body
  runs once, with \<open>i = 11\<close>, and returns \<^verbatim>\<open>column_type[13:]\<close>; when it is a quote the loop
  is skipped and the last line returns \<^verbatim>\<open>column_type[8:]\<close>.

  \<open>tuple_rest\<close> is the loop of the production \<^verbatim>\<open>Tuple\<close>:
  \<^verbatim>\<open>
  while remain[0] == ",":
      yield ", "
      remain = yield from self.inspect_field_type(remain[2:])
  \<close>
\<close>

function (domintros) inspect_field_type ::
    "py_env \<Rightarrow> string \<Rightarrow> string \<Rightarrow> py_error + (string list \<times> string)"
  and tuple_rest ::
    "py_env \<Rightarrow> string \<Rightarrow> string list \<Rightarrow> py_error + (string list \<times> string)"
where
  "inspect_field_type E column_type param =
    (if startswith column_type ''LowCardinality'' then
       (case inspect_field_type E (drop 15 column_type)
               (merge_params [param, ''low_cardinality=True'']) of
          Inl e \<Rightarrow> Inl e
        | Inr (ys, remain) \<Rightarrow> Inr (ys, drop 1 remain))
     else if startswith column_type ''Nullable'' then
       (case inspect_field_type E (drop 9 column_type)
               (merge_params [param, ''null=True'', ''blank=True'']) of
          Inl e \<Rightarrow> Inl e
        | Inr (ys, remain) \<Rightarrow> Inr (ys, drop 1 remain))
     else if startswith column_type ''FixedString'' then
       (case scan_while isdigit column_type 12 of
          Inl e \<Rightarrow> Inl e
        | Inr i \<Rightarrow>
            Inr ([''models.FixedStringField(''
                    @ merge_params [param, ''max_bytes='' @ slice column_type 12 i] @ '')''],
                 drop (i + 1) column_type))
     else if startswith column_type ''DateTime64'' then
       (if 11 < length column_type then
          (case int_of_char (column_type ! 11) of
             Inl e \<Rightarrow> Inl e
           | Inr p \<Rightarrow>
               (let param' = (if p \<noteq> DEFAULT_PRECISION E
                              then merge_params [param, ''precision='' @ [column_type ! 11]]
                              else param);
                    ys = [''models.DateTime64Field('' @ param' @ '')'']
                in if 12 < length column_type then
                     (if column_type ! 12 = CHR '','' then
                        (case scan_while (\<lambda>c. c \<noteq> CHR 0x27) column_type 15 of
                           Inl e \<Rightarrow> Inl e
                         | Inr i \<Rightarrow> Inr (ys, drop (i + 2) column_type))
                      else Inr (ys, drop 13 column_type))
                   else Inl IndexError))
        else Inl IndexError)
     else if startswith column_type ''DateTime'' then
       (let ys = [''models.DateTimeField('' @ param @ '')''] in
        if 8 < length column_type \<and> column_type ! 8 = CHR ''('' then
          (if 10 < length column_type then
             (if column_type ! 10 \<noteq> CHR 0x27 then Inr (ys, drop 13 column_type)
              else Inr (ys, drop 8 column_type))
           else Inl IndexError)
        else Inr (ys, drop 8 column_type))
     else if startswith column_type ''Decimal'' then
       (case scan_while isdigit column_type 8 of
          Inl e \<Rightarrow> Inl e
        | Inr i \<Rightarrow>
            (case scan_while isdigit column_type (i + 2) of
               Inl e \<Rightarrow> Inl e
             | Inr i' \<Rightarrow>
                 Inr ([''models.DecimalField(''
                         @ merge_params [param, ''max_digits='' @ slice column_type 8 i,
                                         ''decimal_places='' @ slice column_type (i + 2) i']
                         @ '')''],
                      drop (i' + 1) column_type)))
     else if startswith column_type ''Enum'' then
       (case scan_while isdigit column_type 4 of
          Inl e \<Rightarrow> Inl e
        | Inr i \<Rightarrow>
            (case consume_enum_choice E (drop (i + 1) column_type) of
               Inl e \<Rightarrow> Inl e
             | Inr (name, value, remain) \<Rightarrow>
                 (case enum_rest E remain [''('' @ value @ '', '' @ name @ '')''] of
                    Inl e \<Rightarrow> Inl e
                  | Inr (choices, remain') \<Rightarrow>
                      Inr ([''models.'' @ take i column_type @ ''Field(''
                              @ merge_params [param, ''choices=['' @ join '', '' choices @ '']'']
                              @ '')''],
                           drop 1 remain'))))
     else if startswith column_type ''Array'' then
       (case inspect_field_type E (drop 6 column_type) [] of
          Inl e \<Rightarrow> Inl e
        | Inr (ys, remain) \<Rightarrow>
            Inr ([''models.ArrayField(''] @ ys
                   @ (if param \<noteq> [] then ['', '' @ param] else []) @ ['')''],
                 drop 1 remain))
     else if startswith column_type ''Tuple'' then
       (case inspect_field_type E (drop 6 column_type) [] of
          Inl e \<Rightarrow> Inl e
        | Inr (ys, remain) \<Rightarrow>
            (case tuple_rest E remain ([''models.TupleField([''] @ ys) of
               Inl e \<Rightarrow> Inl e
             | Inr (ys', remain') \<Rightarrow>
                 Inr (ys' @ ['']''] @ (if param \<noteq> [] then ['', '' @ param] else []) @ ['')''],
                      drop 1 remain')))
     else if startswith column_type ''Map'' then
       (case inspect_field_type E (drop 4 column_type) [] of
          Inl e \<Rightarrow> Inl e
        | Inr (ys, remain) \<Rightarrow>
            (case inspect_field_type E (drop 2 remain) [] of
               Inl e \<Rightarrow> Inl e
             | Inr (ys', remain') \<Rightarrow>
                 Inr ([''models.MapField(''] @ ys @ ['', ''] @ ys'
                        @ (if param \<noteq> [] then ['', '' @ param] else []) @ ['')''],
                      drop 1 remain')))
     else if startswith column_type ''Object('json')'' then
       Inr ([''models.JSONField('' @ param @ '')''], drop 14 column_type)
     else
       (let i = scan_alnum column_type 0 in
        Inr ([''models.'' @ take i column_type @ ''Field('' @ param @ '')''],
             drop i column_type)))"
| "tuple_rest E remain ys =
    (case remain of
       [] \<Rightarrow> Inl IndexError
     | c # _ \<Rightarrow>
         if c = CHR '','' then
           (case inspect_field_type E (drop 2 remain) [] of
              Inl e \<Rightarrow> Inl e
            | Inr (ys', remain') \<Rightarrow> tuple_rest E remain' (ys @ ['', ''] @ ys'))
         else Inr (ys, remain))"
  by pat_completeness auto

text \<open>Termination: every call returns a suffix of the text it was given, so the text of a
  later call in the same production is shorter than the production's own.\<close>

lemma suffix_drop_trans: "suffix r (drop n s) \<Longrightarrow> suffix r s"
  by (meson suffix_drop suffix_order.trans)

lemma suffix_drop_left: "suffix r s \<Longrightarrow> suffix (drop n r) s"
  by (meson suffix_drop suffix_order.trans)

lemma enum_rest_suffix:
  "enum_rest E remain choices = Inr (cs, r) \<Longrightarrow> suffix r remain"
proof (induction E remain choices rule: enum_rest.induct)
  case (1 E remain choices)
  show ?case
  proof (cases remain)
    case Nil
    with "1.prems" show ?thesis by (simp add: enum_rest.simps)
  next
    case (Cons c cs')
    show ?thesis
    proof (cases "c = CHR '')''")
      case True
      with Cons "1.prems" show ?thesis by (simp add: enum_rest.simps)
    next
      case False
      with Cons "1.prems" obtain name v r1 where
        c: "consume_enum_choice E (drop 2 remain) = Inr (name, v, r1)"
        and e: "enum_rest E r1 (choices @ [''('' @ v @ '', '' @ name @ '')'']) = Inr (cs, r)"
        by (subst (asm) enum_rest.simps) (auto split: sum.splits)
      from "1.IH"[OF Cons False c refl refl e] have "suffix r r1" .
      moreover from consume_enum_choice_suffix[OF c] have "suffix r1 remain"
        by (rule suffix_drop_trans)
      ultimately show ?thesis by (rule suffix_order.trans)
    qed
  qed
qed

lemma inspect_suffix_dom:
  shows "inspect_field_type_tuple_rest_dom (Inl (E, s, p)) \<Longrightarrow>
         inspect_field_type E s p = Inr (ys, r) \<Longrightarrow> suffix r s"
    and "inspect_field_type_tuple_rest_dom (Inr (E, rem, ys0)) \<Longrightarrow>
         tuple_rest E rem ys0 = Inr (ys', r') \<Longrightarrow> suffix r' rem"
proof (induction E s p and E rem ys0 arbitrary: ys r and ys' r'
       rule: inspect_field_type_tuple_rest.pinduct)
  case (1 E s p)
  note eq = "1.prems"[unfolded inspect_field_type.psimps[OF "1.hyps"]]
  let ?lc = "startswith s ''LowCardinality''" and ?nu = "startswith s ''Nullable''"
  let ?fs = "startswith s ''FixedString''" and ?d64 = "startswith s ''DateTime64''"
  let ?dt = "startswith s ''DateTime''" and ?de = "startswith s ''Decimal''"
  let ?en = "startswith s ''Enum''" and ?ar = "startswith s ''Array''"
  let ?tu = "startswith s ''Tuple''" and ?ma = "startswith s ''Map''"
  consider (lc) ?lc | (nu) "\<not> ?lc" ?nu
    | (ar) "\<not> ?lc" "\<not> ?nu" "\<not> ?fs" "\<not> ?d64" "\<not> ?dt" "\<not> ?de" "\<not> ?en" ?ar
    | (tu) "\<not> ?lc" "\<not> ?nu" "\<not> ?fs" "\<not> ?d64" "\<not> ?dt" "\<not> ?de" "\<not> ?en" "\<not> ?ar" ?tu
    | (ma) "\<not> ?lc" "\<not> ?nu" "\<not> ?fs" "\<not> ?d64" "\<not> ?dt" "\<not> ?de" "\<not> ?en" "\<not> ?ar"
           "\<not> ?tu" ?ma
    | (leaf) "\<not> ?lc" "\<not> ?nu"
             "?fs \<or> ?d64 \<or> ?dt \<or> ?de \<or> ?en \<or> (\<not> ?ar \<and> \<not> ?tu \<and> \<not> ?ma)"
    by blast
  then show ?case
  proof cases
    case lc
    with eq obtain ys1 r1 where
      a: "inspect_field_type E (drop 15 s) (merge_params [p, ''low_cardinality=True''])
            = Inr (ys1, r1)"
      and b: "r = drop 1 r1"
      by (auto split: sum.splits)
    from "1.IH"(1)[OF lc a] b show ?thesis
      by (auto intro: suffix_drop_left suffix_drop_trans)
  next
    case nu
    with eq obtain ys1 r1 where
      a: "inspect_field_type E (drop 9 s) (merge_params [p, ''null=True'', ''blank=True''])
            = Inr (ys1, r1)"
      and b: "r = drop 1 r1"
      by (auto split: sum.splits)
    from "1.IH"(2)[OF nu a] b show ?thesis
      by (auto intro: suffix_drop_left suffix_drop_trans)
  next
    case ar
    with eq obtain ys1 r1 where
      a: "inspect_field_type E (drop 6 s) [] = Inr (ys1, r1)" and b: "r = drop 1 r1"
      by (auto split: sum.splits)
    from "1.IH"(3)[OF ar a] b show ?thesis
      by (auto intro: suffix_drop_left suffix_drop_trans)
  next
    case tu
    with eq obtain ys1 r1 ys2 r2 where
      a: "inspect_field_type E (drop 6 s) [] = Inr (ys1, r1)"
      and t: "tuple_rest E r1 ([''models.TupleField([''] @ ys1) = Inr (ys2, r2)"
      and b: "r = drop 1 r2"
      by (auto split: sum.splits)
    from "1.IH"(4)[OF tu a] have "suffix r1 s" by (rule suffix_drop_trans)
    moreover from "1.IH"(5)[OF tu a refl t] have "suffix r2 r1" .
    ultimately show ?thesis using b
      by (auto intro: suffix_drop_left suffix_order.trans)
  next
    case ma
    with eq obtain ys1 r1 ys2 r2 where
      a: "inspect_field_type E (drop 4 s) [] = Inr (ys1, r1)"
      and t: "inspect_field_type E (drop 2 r1) [] = Inr (ys2, r2)"
      and b: "r = drop 1 r2"
      by (auto split: sum.splits)
    from "1.IH"(6)[OF ma a] have "suffix r1 s" by (rule suffix_drop_trans)
    moreover from "1.IH"(7)[OF ma a refl t] have "suffix r2 r1" by (rule suffix_drop_trans)
    ultimately show ?thesis using b
      by (auto intro: suffix_drop_left suffix_order.trans)
  next
    case leaf
    with eq show ?thesis
      by (auto simp: Let_def suffix_drop split: if_splits sum.splits prod.splits
               dest!: consume_enum_choice_suffix enum_rest_suffix
               intro: suffix_drop_left suffix_drop_trans suffix_order.trans)
  qed
next
  case (2 E rem ys0)
  note eq = "2.prems"[unfolded tuple_rest.psimps[OF "2.hyps"]]
  show ?case
  proof (cases rem)
    case Nil
    with eq show ?thesis by simp
  next
    case (Cons c cs)
    show ?thesis
    proof (cases "c = CHR '',''")
      case False
      with eq Cons show ?thesis by simp
    next
      case True
      with eq Cons obtain ys1 r1 where
        a: "inspect_field_type E (drop 2 rem) [] = Inr (ys1, r1)"
        and t: "tuple_rest E r1 (ys0 @ ['', ''] @ ys1) = Inr (ys', r')"
        by (auto split: sum.splits)
      from "2.IH"(1)[OF Cons True a] have "suffix r1 rem" by (rule suffix_drop_trans)
      moreover from "2.IH"(2)[OF Cons True a refl t] have "suffix r' r1" .
      ultimately show ?thesis by (auto intro: suffix_order.trans)
    qed
  qed
qed

lemma startswith_length: "startswith s w \<Longrightarrow> length w \<le> length s"
proof -
  assume "startswith s w"
  then have "length (take (length w) s) = length w" by (simp add: startswith_def)
  then show ?thesis by simp
qed

lemma inspect_length_dom:
  "inspect_field_type_tuple_rest_dom (Inl (E, s, p)) \<Longrightarrow>
   inspect_field_type E s p = Inr (ys, r) \<Longrightarrow> length r \<le> length s"
  by (rule suffix_length_le) (rule inspect_suffix_dom)

termination inspect_field_type
proof (relation "measure (\<lambda>x. case x of Inl (E, s, p) \<Rightarrow> 2 * length s + 1
                                   | Inr (E, r, ys) \<Rightarrow> 2 * length r + 2)", goal_cases)
  case 1
  show ?case by simp
next
  case (2 E s p)
  then show ?case by (auto dest: startswith_length)
next
  case (3 E s p)
  then show ?case by (auto dest: startswith_length)
next
  case (4 E s p)
  then show ?case by (auto dest: startswith_length)
next
  case (5 E s p)
  then show ?case by (auto dest: startswith_length)
next
  case (6 E s p b x y)
  from 6(9) have "5 \<le> length s" by (auto dest: startswith_length)
  moreover from 6 have "length y \<le> length (drop 6 s)"
    by (auto dest: inspect_length_dom)
  ultimately show ?case by simp
next
  case (7 E s p)
  then show ?case by (auto dest: startswith_length)
next
  case (8 E s p b x y)
  from 8(10) have "3 \<le> length s" by (auto dest: startswith_length)
  moreover from 8 have "length y \<le> length (drop 4 s)"
    by (auto dest: inspect_length_dom)
  ultimately show ?case by simp
next
  case (9 E rem ys c cs)
  then show ?case by simp
next
  case (10 E rem ys c cs b x y)
  from 10 have "length y \<le> length (drop 2 rem)"
    by (auto dest: inspect_length_dom)
  with 10(1) show ?case by simp
qed

declare inspect_field_type.simps [simp del] tuple_rest.simps [simp del]

lemma inspect_total:
  shows "inspect_field_type_tuple_rest_dom (Inl (E, s, p))"
    and "inspect_field_type_tuple_rest_dom (Inr (E, rem, ys0))"
proof (induction E s p and E rem ys0 rule: inspect_field_type_tuple_rest.induct)
  case (1 E column_type param)
  show ?case
  proof (rule inspect_field_type_tuple_rest.domintros(1), goal_cases)
    case 1
    then show ?case by (rule "1.IH"(1))
  next
    case 2
    then show ?case by (rule "1.IH"(2))
  next
    case 3
    then show ?case by (rule "1.IH"(3))
  next
    case 4
    then show ?case by (rule "1.IH"(4))
  next
    case (5 a b)
    from "1.IH"(5)[OF 5 refl] show ?case by simp
  next
    case 6
    then show ?case by (rule "1.IH"(6))
  next
    case (7 a b)
    from "1.IH"(7)[OF 7 refl] show ?case by simp
  qed
next
  case (2 E remain ys)
  show ?case
  proof (rule inspect_field_type_tuple_rest.domintros(2), goal_cases)
    case (1 x22)
    from "2.IH"(1)[OF 1 refl] 1 show ?case by simp
  next
    case (2 x22 a b)
    from 2(2) have "inspect_field_type E (drop 2 remain) [] = Inr (a, b)"
      using 2(1) by simp
    from "2.IH"(2)[OF 2(1) refl this refl] show ?case by simp
  qed
qed

section \<open>introspection: constraints, indexes and field types\<close>

subsection \<open>The two patterns\<close>

text \<open>
  \<^verbatim>\<open>re\<close> matches by backtracking: at a position it tries the alternatives of the pattern in
  a fixed order of preference and takes the first that lets the whole pattern match.  A
  piece of a pattern is modelled as a function from the text at the current position to
  the list of its possible matches, each with the text that follows it, in that order of
  preference; the first element of the list for the whole pattern is the match that
  \<^verbatim>\<open>re\<close> reports.  A greedy repetition lists its longest match first, a lazy one
  (\<^verbatim>\<open>+?\<close>) its shortest.  Both patterns are compiled without flags, so \<^verbatim>\<open>.\<close> is any
  character but a line feed, and \<^verbatim>\<open>\S\<close>, \<^verbatim>\<open>\d\<close> are the Unicode classes.
\<close>

type_synonym rx = "string \<Rightarrow> (string \<times> string) list"

definition rx_lit :: "string \<Rightarrow> rx" where
  "rx_lit w s = (if startswith s w then [(w, drop (length w) s)] else [])"

definition rx_seq :: "rx \<Rightarrow> rx \<Rightarrow> rx" where
  "rx_seq a b s = do { (m1, r1) \<leftarrow> a s; (m2, r2) \<leftarrow> b r1; [(m1 @ m2, r2)] }"

definition rx_opt :: "rx \<Rightarrow> rx" where
  "rx_opt a s = a s @ [([], s)]"

definition rx_one :: "(char \<Rightarrow> bool) \<Rightarrow> rx" where
  "rx_one P s = (case s of [] \<Rightarrow> [] | c # cs \<Rightarrow> if P c then [([c], cs)] else [])"

fun rx_star :: "(char \<Rightarrow> bool) \<Rightarrow> rx" where
  "rx_star P [] = [([], [])]"
| "rx_star P (c # cs) =
     (if P c then map (\<lambda>(m, r). (c # m, r)) (rx_star P cs) @ [([], c # cs)]
      else [([], c # cs)])"

fun rx_star_lazy :: "(char \<Rightarrow> bool) \<Rightarrow> rx" where
  "rx_star_lazy P [] = [([], [])]"
| "rx_star_lazy P (c # cs) =
     (if P c then ([], c # cs) # map (\<lambda>(m, r). (c # m, r)) (rx_star_lazy P cs)
      else [([], c # cs)])"

definition rx_plus :: "(char \<Rightarrow> bool) \<Rightarrow> rx" where
  "rx_plus P = rx_seq (rx_one P) (rx_star P)"

definition rx_plus_lazy :: "(char \<Rightarrow> bool) \<Rightarrow> rx" where
  "rx_plus_lazy P = rx_seq (rx_one P) (rx_star_lazy P)"

text \<open>The classes \<^verbatim>\<open>.\<close>, \<^verbatim>\<open>\s\<close>, \<^verbatim>\<open>\S\<close>, \<^verbatim>\<open>\d\<close>, \<^verbatim>\<open>[a-zA-Z_]\<close> and
  \<^verbatim>\<open>[0-9a-zA-Z_]\<close>.\<close>

definition re_any :: "char \<Rightarrow> bool" where
  "re_any c = (c \<noteq> CHR 0x0A)"

definition re_space :: "char \<Rightarrow> bool" where
  "re_space c =
     (let n = (of_char c :: nat) in
      (9 \<le> n \<and> n \<le> 13) \<or> (28 \<le> n \<and> n \<le> 32) \<or> n = 133 \<or> n = 160)"

definition re_nonspace :: "char \<Rightarrow> bool" where
  "re_nonspace c = (\<not> re_space c)"

definition re_digit :: "char \<Rightarrow> bool" where
  "re_digit c = (let n = (of_char c :: nat) in 48 \<le> n \<and> n \<le> 57)"

definition re_ident_start :: "char \<Rightarrow> bool" where
  "re_ident_start c =
     (let n = (of_char c :: nat) in (97 \<le> n \<and> n \<le> 122) \<or> (65 \<le> n \<and> n \<le> 90) \<or> n = 95)"

definition re_ident_char :: "char \<Rightarrow> bool" where
  "re_ident_char c =
     (let n = (of_char c :: nat) in
      (48 \<le> n \<and> n \<le> 57) \<or> (97 \<le> n \<and> n \<le> 122) \<or> (65 \<le> n \<and> n \<le> 90) \<or> n = 95)"

text \<open>The name inside backticks, \<^verbatim>\<open>(?:[^\\`]|\\.)+\<close>: one step is a character other than
  backslash and backtick, or a backslash with the character after it.\<close>

definition quoted_item :: rx where
  "quoted_item s =
     (case s of
        [] \<Rightarrow> []
      | c # cs \<Rightarrow>
          if c \<noteq> CHR 0x5C \<and> c \<noteq> CHR 0x60 then [([c], cs)]
          else if c = CHR 0x5C then
            (case cs of [] \<Rightarrow> [] | d # ds \<Rightarrow> if re_any d then [([c, d], ds)] else [])
          else [])"

fun quoted_star :: rx where
  "quoted_star [] = [([], [])]"
| "quoted_star [c] =
     (if c \<noteq> CHR 0x5C \<and> c \<noteq> CHR 0x60 then [([c], []), ([], [c])] else [([], [c])])"
| "quoted_star (c # d # cs) =
     (if c \<noteq> CHR 0x5C \<and> c \<noteq> CHR 0x60 then
        map (\<lambda>(m, r). (c # m, r)) (quoted_star (d # cs)) @ [([], c # d # cs)]
      else if c = CHR 0x5C \<and> re_any d then
        map (\<lambda>(m, r). (c # d # m, r)) (quoted_star cs) @ [([], c # d # cs)]
      else [([], c # d # cs)])"

definition quoted_plus :: rx where
  "quoted_plus = rx_seq quoted_item quoted_star"

text \<open>The conditional groups \<^verbatim>\<open>((?(1)(?:[^\\`]|\\.)+|\S+))\<close> and \<^verbatim>\<open>(?(1)`|)\<close>: group 1 is
  the optional backtick, which has taken part in the match exactly when its text \<open>g1\<close> is
  not empty.\<close>

definition name_token :: "string \<Rightarrow> rx" where
  "name_token g1 = (if g1 \<noteq> [] then quoted_plus else rx_plus re_nonspace)"

definition name_close :: "string \<Rightarrow> rx" where
  "name_close g1 = (if g1 \<noteq> [] then rx_lit [CHR 0x60] else rx_lit [])"

text \<open>
  \<^verbatim>\<open>
  constraint_pattern = re.compile(
      r'CONSTRAINT (`)?((?(1)(?:[^\\`]|\\.)+|\S+))(?(1)`|) (CHECK .+?),?\n'
  )
  index_pattern = re.compile(
      r'INDEX (`)?((?(1)(?:[^\\`]|\\.)+|\S+))(?(1)`|) (.+? TYPE ([a-zA-Z_][0-9a-zA-Z_]*)\(.+?\) GRANULARITY \d+)'
  )
  \<close>
  Each function lists the matches of its pattern at the start of the text: the texts of
  the groups and the text after the match.
\<close>

definition constraint_pattern ::
    "string \<Rightarrow> ((string \<times> string \<times> string) \<times> string) list" where
  "constraint_pattern s = do {
     (_, s1) \<leftarrow> rx_lit ''CONSTRAINT '' s;
     (g1, s2) \<leftarrow> rx_opt (rx_lit [CHR 0x60]) s1;
     (g2, s3) \<leftarrow> name_token g1 s2;
     (_, s4) \<leftarrow> name_close g1 s3;
     (_, s5) \<leftarrow> rx_lit '' '' s4;
     (g3, s6) \<leftarrow> rx_seq (rx_lit ''CHECK '') (rx_plus_lazy re_any) s5;
     (_, s7) \<leftarrow> rx_opt (rx_lit '','') s6;
     (_, s8) \<leftarrow> rx_lit [CHR 0x0A] s7;
     [((g1, g2, g3), s8)]
   }"

definition index_pattern ::
    "string \<Rightarrow> ((string \<times> string \<times> string \<times> string) \<times> string) list" where
  "index_pattern s = do {
     (_, s1) \<leftarrow> rx_lit ''INDEX '' s;
     (g1, s2) \<leftarrow> rx_opt (rx_lit [CHR 0x60]) s1;
     (g2, s3) \<leftarrow> name_token g1 s2;
     (_, s4) \<leftarrow> name_close g1 s3;
     (_, s5) \<leftarrow> rx_lit '' '' s4;
     (expr, s6) \<leftarrow> rx_plus_lazy re_any s5;
     (kw, s7) \<leftarrow> rx_lit '' TYPE '' s6;
     (g4, s8) \<leftarrow> rx_seq (rx_one re_ident_start) (rx_star re_ident_char) s7;
     (args, s9) \<leftarrow> rx_seq (rx_lit ''('') (rx_seq (rx_plus_lazy re_any) (rx_lit '')'')) s8;
     (gran, s10) \<leftarrow> rx_seq (rx_lit '' GRANULARITY '') (rx_plus re_digit) s9;
     [((g1, g2, expr @ kw @ g4 @ args @ gran, g4), s10)]
   }"

text \<open>
  \<^verbatim>\<open>pattern.findall(text)\<close>: the groups of the matches found from left to right, each
  search starting where the match before it ended; where nothing matches, the search
  moves on by one character.  After an empty match the next search starts at the same
  place and takes only a match that is not empty (\<open>must_advance\<close>).  An absent group is
  the empty string.
\<close>

function findall_from ::
    "(string \<Rightarrow> ('g \<times> string) list) \<Rightarrow> bool \<Rightarrow> string \<Rightarrow> 'g list" where
  "findall_from pat must_advance s =
     (case (if must_advance then filter (\<lambda>(g, r). length r < length s) (pat s) else pat s) of
        [] \<Rightarrow> (case s of [] \<Rightarrow> [] | _ # cs \<Rightarrow> findall_from pat False cs)
      | (g, r) # _ \<Rightarrow>
          g # (if length r < length s then findall_from pat False r
               else findall_from pat True s))"
  by pat_completeness auto
termination
  apply (relation "measure (\<lambda>(pat, must_advance, s).
                              2 * length s + (if must_advance then 0 else 1))")
     apply simp
    apply simp
   apply simp
  apply (auto split: if_splits)
  apply (metis (mono_tags, lifting) case_prodD filter_eq_ConsD)
  done

declare findall_from.simps [simp del]

definition findall :: "(string \<Rightarrow> ('g \<times> string) list) \<Rightarrow> string \<Rightarrow> 'g list" where
  "findall pat s = findall_from pat False s"


subsection \<open>get_constraints\<close>

text \<open>
  The dictionary that \<^verbatim>\<open>get_constraints\<close> builds for one name.  The entry of a CHECK
  constraint has no keys \<^verbatim>\<open>"orders"\<close> and \<^verbatim>\<open>"type"\<close>: they are \<open>None\<close> here.  The keys
  \<^verbatim>\<open>"foreign_key"\<close> and \<^verbatim>\<open>"options"\<close> always hold Python's \<^verbatim>\<open>None\<close>.
\<close>

record constraint =
  c_columns :: "string list"
  c_orders :: "string list option"
  c_primary_key :: bool
  c_unique :: bool
  c_foreign_key :: "string option"
  c_check :: bool
  c_index :: bool
  c_type :: "string option"
  c_definition :: string
  c_options :: "string option"

definition check_entry :: "string \<Rightarrow> constraint" where
  "check_entry definition' =
     \<lparr>c_columns = [], c_orders = None, c_primary_key = False, c_unique = False,
      c_foreign_key = None, c_check = True, c_index = False, c_type = None,
      c_definition = definition', c_options = None\<rparr>"

definition index_entry :: "string \<Rightarrow> string \<Rightarrow> constraint" where
  "index_entry definition' type' =
     \<lparr>c_columns = [], c_orders = Some [], c_primary_key = False, c_unique = False,
      c_foreign_key = None, c_check = False, c_index = True, c_type = Some type',
      c_definition = definition', c_options = None\<rparr>"

text \<open>
  \<^verbatim>\<open>
  constraints = {}
  cursor.execute('SHOW CREATE TABLE "%s"' % table_name)
  table_sql, = cursor.fetchone()
  for backtick, name, definition in constraint_pattern.findall(table_sql):
      constraints[name] = {..., "check": True, "index": False, "definition": definition, ...}
  for backtick, name, definition, type_ in index_pattern.findall(table_sql):
      constraints[name] = {..., "check": False, "index": True, "type": type_,
                           "definition": definition, ...}
  return constraints
  \<close>
  The model starts from \<open>table_sql\<close>, the text that the cursor has fetched.
\<close>

definition add_checks ::
    "(string \<times> string \<times> string) list \<Rightarrow> (string \<rightharpoonup> constraint) \<Rightarrow> (string \<rightharpoonup> constraint)" where
  "add_checks ms constraints =
     fold (\<lambda>(backtick, name, definition') cs. cs(name \<mapsto> check_entry definition')) ms constraints"

definition add_indexes ::
    "(string \<times> string \<times> string \<times> string) list \<Rightarrow> (string \<rightharpoonup> constraint)
       \<Rightarrow> (string \<rightharpoonup> constraint)" where
  "add_indexes ms constraints =
     fold (\<lambda>(backtick, name, definition', type') cs. cs(name \<mapsto> index_entry definition' type'))
       ms constraints"

definition get_constraints :: "string \<Rightarrow> (string \<rightharpoonup> constraint)" where
  "get_constraints table_sql =
     add_indexes (findall index_pattern table_sql)
       (add_checks (findall constraint_pattern table_sql) Map.empty)"


subsection \<open>get_field_type\<close>

text \<open>The dictionary \<^verbatim>\<open>data_types_reverse\<close>.\<close>

definition data_types_reverse :: "string \<rightharpoonup> string" where
  "data_types_reverse =
     map_of
       [(''String'', ''TextField''),
        (''Int64'', ''BigIntegerField''),
        (''Int16'', ''SmallIntegerField''),
        (''Int32'', ''IntegerField''),
        (''UInt64'', ''PositiveBigIntegerField''),
        (''UInt16'', ''PositiveSmallIntegerField''),
        (''UInt32'', ''PositiveIntegerField''),
        (''Float32'', ''FloatField''),
        (''Float64'', ''FloatField''),
        (''IPv4'', ''GenericIPAddressField''),
        (''IPv6'', ''GenericIPAddressField''),
        (''Date'', ''DateField''),
        (''Date32'', ''DateField''),
        (''DateTime'', ''DateTimeField''),
        (''UUID'', ''UUIDField'')]"

text \<open>
  \<^verbatim>\<open>
  def get_field_type(self, data_type, description):
      if data_type.startswith('FixedString'):
          return 'CharField'
      elif data_type.startswith('DateTime64'):
          return 'DateTimeField'
      elif data_type.startswith('Decimal'):
          return 'DecimalField'
      elif data_type.startswith('Nullable'):
          return self.get_field_type(data_type[9:-1], description)
      return super().get_field_type(data_type, description)
  \<close>
  The method of the base class is Django's: it returns
  \<^verbatim>\<open>self.data_types_reverse[data_type]\<close>, a \<open>KeyError\<close> for a type that is not a key, and
  does not look at \<open>description\<close>.  The slice \<^verbatim>\<open>data_type[9:-1]\<close> is
  \<open>drop 9 (butlast data_type)\<close>.
\<close>

function get_field_type :: "string \<Rightarrow> 'd \<Rightarrow> py_error + string" where
  "get_field_type data_type description =
     (if startswith data_type ''FixedString'' then Inr ''CharField''
      else if startswith data_type ''DateTime64'' then Inr ''DateTimeField''
      else if startswith data_type ''Decimal'' then Inr ''DecimalField''
      else if startswith data_type ''Nullable''
        then get_field_type (drop 9 (butlast data_type)) description
      else (case data_types_reverse data_type of
              None \<Rightarrow> Inl KeyError
            | Some field_type \<Rightarrow> Inr field_type))"
  by pat_completeness auto
termination
  apply (relation "measure (\<lambda>(data_type, description). length data_type)")
   apply simp
  apply (auto dest!: startswith_length)
  done

declare get_field_type.simps [simp del]

section \<open>inspectdb: the loop over tables and columns\<close>

text \<open>
  \<^verbatim>\<open>handle_inspection\<close> is a generator of lines.  The model of a piece of it returns the
  lines yielded and the exception that ended it, if one did: the lines yielded before an
  exception have reached the consumer.

  The attributes read from a row of the description (\<^verbatim>\<open>row.name\<close>,
  \<^verbatim>\<open>row.type_code\<close>, \<^verbatim>\<open>row.comment\<close>) and from an entry of the table list
  (\<^verbatim>\<open>info.type\<close>, \<^verbatim>\<open>info.comment\<close>):
\<close>

record field_info =
  row_name :: string
  row_type_code :: string
  row_comment :: "string option"

record table_info =
  info_type :: string
  info_comment :: "string option"

text \<open>
  What the loop takes from Django and from the connection:
  \<^item> \<open>normalize_col_name\<close>, the method of Django's command, which returns the attribute
    name, the dictionary of extra parameters and the notes; the dictionary is a list of
    keys with the text that \<^verbatim>\<open>%r\<close> prints for the value;
  \<^item> \<open>dj_ge42\<close> (\<^verbatim>\<open>compat.dj_ge42\<close>) and \<open>supports_comments\<close>
    (\<^verbatim>\<open>connection.features.supports_comments\<close>);
  \<^item> \<open>get_meta\<close>, the method of Django's command that yields the lines of \<^verbatim>\<open>class Meta\<close>;
  \<^item> \<open>error_str\<close>, the text \<^verbatim>\<open>"%s" % e\<close> of an exception.
\<close>

record command_env =
  lang :: py_env
  normalize_col_name ::
    "string \<Rightarrow> string list \<Rightarrow> bool \<Rightarrow> string \<times> (string \<times> string) list \<times> string list"
  dj_ge42 :: bool
  supports_comments :: bool
  get_meta ::
    "string \<Rightarrow> (string \<rightharpoonup> constraint) \<Rightarrow> (string \<times> string) list \<Rightarrow> bool \<Rightarrow> bool
       \<Rightarrow> string option \<Rightarrow> string list"
  error_str :: "py_error \<Rightarrow> string"

text \<open>\<^verbatim>\<open>d[k] = v\<close> on a dictionary kept as a list of pairs in the order of insertion.\<close>

fun dict_set :: "('k \<times> 'v) list \<Rightarrow> 'k \<Rightarrow> 'v \<Rightarrow> ('k \<times> 'v) list" where
  "dict_set [] k v = [(k, v)]"
| "dict_set ((k', v') # d) k v = (if k' = k then (k, v) # d else (k', v') # dict_set d k v)"

text \<open>The two variables that the loop over the columns updates.\<close>

record column_state =
  used_column_names :: "string list"
  column_to_field_name :: "(string \<times> string) list"

text \<open>
  The parameters of the field of one column, lines 73 to 95 of the source:
  \<^verbatim>\<open>
  att_name, extra_params, comment_notes = self.normalize_col_name(column_name, used_column_names, False)
  ...
  if compat.dj_ge42 and connection.features.supports_comments and row.comment:
      extra_params["db_comment"] = row.comment
  if extra_params:
      param = ", ".join("%s=%r" % (k, v) for k, v in extra_params.items())
  else:
      param = ""
  \<close>
\<close>

definition column_param :: "command_env \<Rightarrow> field_info \<Rightarrow> (string \<times> string) list \<Rightarrow> string" where
  "column_param C row extra_params =
     (let extra_params' =
            (case row_comment row of
               None \<Rightarrow> extra_params
             | Some comment \<Rightarrow>
                 if dj_ge42 C \<and> supports_comments C \<and> comment \<noteq> []
                 then dict_set extra_params ''db_comment''
                        (repr_str (lang C) (map of_char comment))
                 else extra_params)
      in if extra_params' \<noteq> []
         then join '', '' (map (\<lambda>(k, v). k @ ''='' @ v) extra_params')
         else [])"

text \<open>
  The loop over the columns, lines 70 to 103:
  \<^verbatim>\<open>
  for row in table_description:
      column_name = row.name
      (att_name, extra_params, comment_notes) = self.normalize_col_name(...)
      used_column_names.append(att_name)
      column_to_field_name[column_name] = att_name
      ...
      field_define = "".join(self.inspect_field_type(row.type_code, param))
      field_desc = f"{att_name} = {field_define}"
      if comment_notes:
          field_desc += "  # " + " ".join(comment_notes)
      yield "    %s" % field_desc
  \<close>
  No \<^verbatim>\<open>try\<close> statement encloses the body of this loop or the call of
  \<^verbatim>\<open>inspect_field_type\<close>.
\<close>

fun table_columns ::
    "command_env \<Rightarrow> field_info list \<Rightarrow> column_state
       \<Rightarrow> string list \<times> column_state \<times> py_error option" where
  "table_columns C [] st = ([], st, None)"
| "table_columns C (row # rows) st =
     (case normalize_col_name C (row_name row) (used_column_names st) False of
        (att_name, extra_params, comment_notes) \<Rightarrow>
          (let st' = \<lparr>used_column_names = used_column_names st @ [att_name],
                      column_to_field_name =
                        dict_set (column_to_field_name st) (row_name row) att_name\<rparr>
           in case inspect_field_type (lang C) (row_type_code row)
                     (column_param C row extra_params) of
                Inl e \<Rightarrow> ([], st', Some e)
              | Inr (ys, remain) \<Rightarrow>
                  (let field_desc = att_name @ '' = '' @ concat ys;
                       field_desc' =
                         (if comment_notes \<noteq> []
                          then field_desc @ ''  # '' @ join '' '' comment_notes
                          else field_desc)
                   in case table_columns C rows st' of
                        (lines, st'', err) \<Rightarrow> ((''    '' @ field_desc') # lines, st'', err))))"

text \<open>
  \<^verbatim>\<open>re.sub(r"[^a-zA-Z0-9]", "", table_name.title())\<close>, in one pass: \<^verbatim>\<open>title\<close> writes a
  letter in lower case after a cased character and in title case otherwise, and the
  substitution keeps the ASCII letters and digits.  Below 256 the cased characters are
  the alphabetic ones, and the only character that is not an ASCII letter and has ASCII
  letters in its title case is the sharp s, whose title case is \<^verbatim>\<open>Ss\<close>.
\<close>

fun table2model_from :: "bool \<Rightarrow> string \<Rightarrow> string" where
  "table2model_from previous_is_cased [] = []"
| "table2model_from previous_is_cased (c # cs) =
     (let n = (of_char c :: nat) in
      if 65 \<le> n \<and> n \<le> 90 then
        (if previous_is_cased then char_of (n + 32) else c) # table2model_from True cs
      else if 97 \<le> n \<and> n \<le> 122 then
        (if previous_is_cased then c else char_of (n - 32)) # table2model_from True cs
      else if 48 \<le> n \<and> n \<le> 57 then c # table2model_from False cs
      else if n = 223 then
        (if previous_is_cased then [] else ''Ss'') @ table2model_from True cs
      else table2model_from (isalpha c) cs)"

definition table2model :: "string \<Rightarrow> string" where
  "table2model table_name = table2model_from False table_name"

text \<open>
  The body of the loop over the tables for one table, lines 47 to 118.  \<open>show_create\<close> is
  what the query of \<^verbatim>\<open>get_constraints\<close> gives, the text of the table or the exception
  of the cursor, and \<open>description\<close> what \<^verbatim>\<open>get_table_description\<close> gives; \<open>info\<close> is
  \<^verbatim>\<open>table_info.get(table_name)\<close>.
  \<^verbatim>\<open>
  try:
      try:
          constraints = connection.introspection.get_constraints(cursor, table_name)
      except NotImplementedError:
          constraints = {}
      table_description = connection.introspection.get_table_description(cursor, table_name)
  except Exception as e:
      yield "# Unable to inspect table '%s'" % table_name
      yield "# The error was: %s" % e
      continue
  model_name = table2model(table_name)
  yield ""
  yield ""
  yield "class %s(models.ClickhouseModel):" % model_name
  ...
  \<close>
  The \<^verbatim>\<open>try\<close> statement ends before the class line: it covers the two calls of the
  introspection only.
\<close>

definition unable_lines :: "command_env \<Rightarrow> string \<Rightarrow> py_error \<Rightarrow> string list" where
  "unable_lines C table_name e =
     [''# Unable to inspect table '' @ [CHR 0x27] @ table_name @ [CHR 0x27],
      ''# The error was: '' @ error_str C e]"

definition inspect_table ::
    "command_env \<Rightarrow> string \<Rightarrow> py_error + string \<Rightarrow> py_error + field_info list
       \<Rightarrow> table_info option \<Rightarrow> string list \<times> py_error option" where
  "inspect_table C table_name show_create description info =
     (case (case show_create of
              Inr table_sql \<Rightarrow> Inr (get_constraints table_sql)
            | Inl e \<Rightarrow> if e = NotImplementedError then Inr Map.empty else Inl e) of
        Inl e \<Rightarrow> (unable_lines C table_name e, None)
      | Inr constraints \<Rightarrow>
          (case description of
             Inl e \<Rightarrow> (unable_lines C table_name e, None)
           | Inr table_description \<Rightarrow>
               (let header = [[], [], ''class '' @ table2model table_name
                                        @ ''(models.ClickhouseModel):'']
                in case table_columns C table_description
                          \<lparr>used_column_names = [], column_to_field_name = []\<rparr> of
                     (lines, st, Some e) \<Rightarrow> (header @ lines, Some e)
                   | (lines, st, None) \<Rightarrow>
                       (let is_view = (case info of None \<Rightarrow> False
                                        | Some i \<Rightarrow> info_type i = ''v'');
                            comment = (case info of None \<Rightarrow> None
                                        | Some i \<Rightarrow> if supports_comments C then info_comment i
                                                    else None)
                        in (header @ lines
                              @ get_meta C table_name constraints (column_to_field_name st)
                                  is_view False comment,
                            None)))))"

section \<open>Values for the examples\<close>

text \<open>
  The examples below run the code on concrete texts and need values for what the code
  takes from outside.  \<open>example_env\<close> takes 6 for the default precision of
  \<^verbatim>\<open>DateTime64Field\<close>, a \<open>repr\<close> that is right for a text of printable ASCII characters
  without quote and backslash, and a \<open>SyntaxError\<close> for every text that is not a quoted
  literal.  \<open>example_command\<close> is a connection without comments whose column names are
  valid lower-case identifiers, which \<^verbatim>\<open>normalize_col_name\<close> returns as they are, without
  parameters and without notes.
\<close>

definition example_env :: py_env where
  "example_env =
     \<lparr>DEFAULT_PRECISION = 6,
      repr_str = (\<lambda>text. [CHR 0x27] @ map char_of text @ [CHR 0x27]),
      eval_other = (\<lambda>name. Inl SyntaxError)\<rparr>"

definition example_command :: command_env where
  "example_command =
     \<lparr>lang = example_env,
      normalize_col_name = (\<lambda>col_name used is_relation. (col_name, [], [])),
      dj_ge42 = True,
      supports_comments = False,
      get_meta = (\<lambda>table_name constraints column_to_field is_view is_partition comment.
                    [[], ''    class Meta:'', ''        managed = False'']),
      error_str = (\<lambda>e. ''error'')\<rparr>"


text \<open>A text as \<^verbatim>\<open>SHOW CREATE TABLE\<close> prints it, with an index and a constraint of the
  same name; the constraint stands after the index.\<close>

definition example_ddl :: string where
  "example_ddl =
     ''CREATE TABLE default.t'' @ [CHR 0x0A]
     @ ''('' @ [CHR 0x0A]
     @ ''    `x` Int32,'' @ [CHR 0x0A]
     @ ''    INDEX a x TYPE set(100) GRANULARITY 4,'' @ [CHR 0x0A]
     @ ''    CONSTRAINT a CHECK x > 0'' @ [CHR 0x0A]
     @ '')'' @ [CHR 0x0A]
     @ ''ENGINE = MergeTree'' @ [CHR 0x0A]
     @ ''ORDER BY x''"


text \<open>The description of a table of three columns; the type of the second has a negative
  value, on which the decoder raises \<open>IndexError\<close> (see \<open>enum_negative_value_raises\<close>
  below).\<close>

definition example_rows :: "field_info list" where
  "example_rows =
     [\<lparr>row_name = ''x'', row_type_code = ''Int32'', row_comment = None\<rparr>,
      \<lparr>row_name = ''e'', row_type_code = ''Enum8('a' = -1, 'b' = 2)'', row_comment = None\<rparr>,
      \<lparr>row_name = ''y'', row_type_code = ''Int16'', row_comment = None\<rparr>]"

definition no_columns :: column_state where
  "no_columns = \<lparr>used_column_names = [], column_to_field_name = []\<rparr>"

text \<open>Two choices of an enum as \<^verbatim>\<open>consume_enum_choice\<close> receives them:
  \<^verbatim>\<open>'\xzz' = 1)\<close>, whose escape has no hexadecimal digits, and \<^verbatim>\<open>'\xff' = 1)\<close>, whose
  byte is not UTF-8.\<close>

definition malformed_choice :: string where
  "malformed_choice = [CHR 0x27, CHR 0x5C] @ ''xzz' = 1)''"

definition invalid_utf8_choice :: string where
  "invalid_utf8_choice = [CHR 0x27, CHR 0x5C] @ ''xff' = 1)''"


text \<open>The text of one choice in a type string, \<^verbatim>\<open>'label' = value\<close>, the choice that the
  decoder writes for it, \<^verbatim>\<open>(value, 'label')\<close>, and the choices without escapes whose value
  is a run of digits.\<close>

definition choice_text :: "string \<times> string \<Rightarrow> string" where
  "choice_text = (\<lambda>(label, v). [CHR 0x27] @ label @ [CHR 0x27] @ '' = '' @ v)"

definition choice_field :: "string \<times> string \<Rightarrow> string" where
  "choice_field = (\<lambda>(label, v). ''('' @ v @ '', '' @ [CHR 0x27] @ label @ [CHR 0x27] @ '')'')"

definition plain_choice :: "string \<times> string \<Rightarrow> bool" where
  "plain_choice = (\<lambda>(label, v).
     list_all (\<lambda>c. c \<noteq> CHR 0x27 \<and> c \<noteq> CHR 0x5C) label \<and> list_all isdigit v)"

text \<open>A text with two constraints of one name.\<close>

definition check_ddl :: string where
  "check_ddl =
     ''CREATE TABLE default.t'' @ [CHR 0x0A]
     @ ''('' @ [CHR 0x0A]
     @ ''    `x` Int32,'' @ [CHR 0x0A]
     @ ''    CONSTRAINT `my check` CHECK (x > 0),'' @ [CHR 0x0A]
     @ ''    CONSTRAINT `my check` CHECK (x > 1)'' @ [CHR 0x0A]
     @ '')'' @ [CHR 0x0A]
     @ ''ENGINE = MergeTree'' @ [CHR 0x0A]
     @ ''ORDER BY x''"


text \<open>
  Reading the text of an emitted field, \<^verbatim>\<open>models.NameField(p1, p2, ...)\<close>: its class is
  the text before the first parenthesis, and its parameters are the pieces of the text
  between that parenthesis and the last character, cut at each comma followed by a
  space.  \<open>decoded_field\<close> reads the result of a decode that has yielded one piece and has
  read the whole text: the class of the field and the set of its parameters.
\<close>

fun cut_at_commas :: "string \<Rightarrow> string \<Rightarrow> string list" where
  "cut_at_commas cur [] = [cur]"
| "cut_at_commas cur [c] = [cur @ [c]]"
| "cut_at_commas cur (c # d # cs) =
     (if c = CHR '','' \<and> d = CHR '' '' then cur # cut_at_commas [] cs
      else cut_at_commas (cur @ [c]) (d # cs))"

definition field_class :: "string \<Rightarrow> string" where
  "field_class t = takeWhile (\<lambda>c. c \<noteq> CHR ''('') t"

definition field_params :: "string \<Rightarrow> string list" where
  "field_params t =
     (let inner = butlast (drop 1 (dropWhile (\<lambda>c. c \<noteq> CHR ''('') t))
      in if inner = [] then [] else cut_at_commas [] inner)"

definition decoded_field ::
    "py_error + (string list \<times> string) \<Rightarrow> (string \<times> string set) option" where
  "decoded_field res =
     (case res of
        Inr ([t], []) \<Rightarrow> Some (field_class t, set (field_params t))
      | _ \<Rightarrow> None)"


section \<open>Properties of the decoder of type strings\<close>

text \<open>
  C1.  The claim: parsing \<^verbatim>\<open>DateTime('tz')\<close>, for a quote-free \<open>tz\<close> that is not empty,
  yields a DateTime field and reads the whole parenthesised argument, leaving nothing.
  The code does not do so: on \<^verbatim>\<open>DateTime('UTC')\<close> it yields the field and returns the
  text from index 13 on, which is the quote and the parenthesis that end the argument.
  The \<^verbatim>\<open>return\<close> stands inside the loop that looks for the closing quote, so the loop
  body runs once, whatever the length of the time zone.
\<close>

theorem datetime_utc_leaves_remainder:
  "inspect_field_type E ''DateTime('UTC')'' [] =
     Inr ([''models.DateTimeField()''], [CHR 0x27, CHR '')''])"
  by code_simp

text \<open>The same production inside a tuple: the text left over by \<^verbatim>\<open>DateTime('UTC')\<close>
  starts with a quote, not with a comma, so the loop of the tuple ends and the second
  element is never read.  The production \<^verbatim>\<open>DateTime64\<close>, whose \<^verbatim>\<open>return\<close> follows its
  loop, reads its argument to the end.\<close>

lemma datetime_in_tuple_loses_elements:
  "inspect_field_type E ''Tuple(DateTime('UTC'), String)'' [] =
     Inr ([''models.TupleField(['', ''models.DateTimeField()'', '']'', '')''],
          ''), String)'')"
  by code_simp

lemma datetime64_reads_timezone:
  "inspect_field_type example_env ''DateTime64(3, 'UTC')'' [] =
     Inr ([''models.DateTime64Field(precision=3)''], [])"
  by code_simp

text \<open>In general the production leaves the text from index 13 on, three characters
  after the start of the time zone: nothing of the argument's end is left over only when
  the time zone has one character.\<close>

lemma datetime_timezone_remainder:
  assumes "tz \<noteq> []" and "hd tz \<noteq> CHR 0x27"
  shows "inspect_field_type E (''DateTime('' @ [CHR 0x27] @ tz @ [CHR 0x27] @ '')'' @ rest) param =
           Inr ([''models.DateTimeField('' @ param @ '')''],
                drop 3 (tz @ [CHR 0x27] @ '')'' @ rest))"
proof -
  from assms obtain c cs where tz: "tz = c # cs" and c: "c \<noteq> CHR 0x27"
    by (cases tz) auto
  show ?thesis
    unfolding tz using c
    by (subst inspect_field_type.simps) (simp add: startswith_def Let_def)
qed

text \<open>
  C8.  Decoding \<^verbatim>\<open>Nullable(LowCardinality(Int16))\<close> and decoding
  \<^verbatim>\<open>LowCardinality(Nullable(Int16))\<close> both yield one \<^verbatim>\<open>Int16\<close> field and read the whole
  text.  The emitted texts list the parameters in the order of the nesting, so they are
  not the same text; read as a field with a set of parameters they are the same: the field
  \<^verbatim>\<open>models.Int16Field\<close> with the flags \<^verbatim>\<open>null=True\<close>, \<^verbatim>\<open>blank=True\<close> of the wrapper
  \<^verbatim>\<open>Nullable\<close> and \<^verbatim>\<open>low_cardinality=True\<close> of \<^verbatim>\<open>LowCardinality\<close>.
\<close>

theorem wrapper_flags_same_set:
  "inspect_field_type E ''Nullable(LowCardinality(Int16))'' [] =
     Inr ([''models.Int16Field(null=True, blank=True, low_cardinality=True)''], [])
   \<and> inspect_field_type E ''LowCardinality(Nullable(Int16))'' [] =
     Inr ([''models.Int16Field(low_cardinality=True, null=True, blank=True)''], [])
   \<and> decoded_field (inspect_field_type E ''Nullable(LowCardinality(Int16))'' []) =
     Some (''models.Int16Field'', {''null=True'', ''blank=True'', ''low_cardinality=True''})
   \<and> decoded_field (inspect_field_type E ''LowCardinality(Nullable(Int16))'' []) =
     decoded_field (inspect_field_type E ''Nullable(LowCardinality(Int16))'' [])"
proof -
  have 1: "inspect_field_type E ''Nullable(LowCardinality(Int16))'' [] =
     Inr ([''models.Int16Field(null=True, blank=True, low_cardinality=True)''], [])"
    by code_simp
  have 2: "inspect_field_type E ''LowCardinality(Nullable(Int16))'' [] =
     Inr ([''models.Int16Field(low_cardinality=True, null=True, blank=True)''], [])"
    by code_simp
  have 3: "field_class ''models.Int16Field(null=True, blank=True, low_cardinality=True)''
             = ''models.Int16Field''"
    by code_simp
  have 4: "field_class ''models.Int16Field(low_cardinality=True, null=True, blank=True)''
             = ''models.Int16Field''"
    by code_simp
  have 5: "field_params ''models.Int16Field(null=True, blank=True, low_cardinality=True)''
             = [''null=True'', ''blank=True'', ''low_cardinality=True'']"
    by code_simp
  have 6: "field_params ''models.Int16Field(low_cardinality=True, null=True, blank=True)''
             = [''low_cardinality=True'', ''null=True'', ''blank=True'']"
    by code_simp
  have a: "decoded_field (inspect_field_type E ''Nullable(LowCardinality(Int16))'' []) =
     Some (''models.Int16Field'', {''null=True'', ''blank=True'', ''low_cardinality=True''})"
    by (simp only: 1 decoded_field_def 3 5 sum.case prod.case list.case) simp
  have b: "decoded_field (inspect_field_type E ''LowCardinality(Nullable(Int16))'' []) =
     Some (''models.Int16Field'', {''null=True'', ''blank=True'', ''low_cardinality=True''})"
    by (simp only: 2 decoded_field_def 4 6 sum.case prod.case list.case) auto
  from 1 2 a b show ?thesis by (simp only:)
qed

text \<open>
  C9.  Whenever the parse of a type string succeeds, the text it returns is a suffix of
  the text it was given: it is that text without its first \<open>k\<close> characters, for the number
  \<open>k\<close> of characters read.  Every nested parse is a call of the same function, so the
  same holds for each of them: the position only moves forward.
\<close>

theorem remainder_is_suffix:
  assumes "inspect_field_type E column_type param = Inr (ys, remain)"
  shows "suffix remain column_type
         \<and> remain = drop (length column_type - length remain) column_type"
proof -
  from assms have s: "suffix remain column_type"
    by (rule inspect_suffix_dom(1)[OF inspect_total(1)])
  then obtain zs where "column_type = zs @ remain"
    by (auto simp: suffix_def)
  then have "remain = drop (length column_type - length remain) column_type"
    by simp
  with s show ?thesis by simp
qed

theorem remainder_is_suffix_witness:
  "inspect_field_type example_env ''Int16, String)'' [] =
     Inr ([''models.Int16Field()''], '', String)'')
   \<and> suffix '', String)'' ''Int16, String)''
   \<and> '', String)'' = drop (length ''Int16, String)'' - length '', String)'') ''Int16, String)''"
proof -
  have h: "inspect_field_type example_env ''Int16, String)'' [] =
             Inr ([''models.Int16Field()''], '', String)'')"
    by code_simp
  from remainder_is_suffix[OF h] h show ?thesis by simp
qed


text \<open>The loops inside the productions return suffixes as well: the loop of the tuple (and
  \<open>consume_enum_choice_suffix\<close>, \<open>enum_rest_suffix\<close> for those of the enum).\<close>

lemma tuple_rest_suffix:
  "tuple_rest E remain ys = Inr (ys', remain') \<Longrightarrow> suffix remain' remain"
  by (rule inspect_suffix_dom(2)[OF inspect_total(2)])

text \<open>
  C5.  The claim: every \<^verbatim>\<open>Enum8\<close> or \<^verbatim>\<open>Enum16\<close> type whose content is a list of
  \<^verbatim>\<open>'label' = value\<close> pairs with integer values parses, and gives the pairs in their
  order.  The values of a ClickHouse enum are signed, and the code reads a value with
  \<^verbatim>\<open>isdigit\<close> only: at a minus sign it reads an empty value, takes what follows for the
  next choice, and runs off the end of the text.
\<close>

theorem enum_negative_value_raises:
  "inspect_field_type E ''Enum8('a' = -1, 'b' = 2)'' [] = Inl IndexError"
  by code_simp

text \<open>The example of the claim, whose values have no sign, is decoded as the claim says:
  the choices are the pairs in the order of the declaration, the value before the label as
  Django writes choices.\<close>

lemma enum_example_choices:
  "inspect_field_type E ''Enum8('a' = 1, 'b' = 2)'' [] =
     Inr ([''models.Enum8Field(choices=[(1, 'a'), (2, 'b')])''], [])"
  by code_simp

text \<open>More generally, every list of choices without escapes whose values are runs of
  digits is decoded, for every width and whatever follows the closing parenthesis: the
  choices come in the order of the declaration and the rest of the text is returned.\<close>

lemma scan_while_run:
  assumes "list_all P run" and "\<not> P c"
  shows "scan_while P (pre @ run @ c # post) (length pre) = Inr (length pre + length run)"
  using assms
proof (induction run arbitrary: pre)
  case Nil
  then show ?case by (subst scan_while.simps) simp
next
  case (Cons x run)
  from Cons.prems have x: "P x" and r: "list_all P run" by simp_all
  from Cons.IH[OF r Cons.prems(2), of "pre @ [x]"] x show ?case
    by (subst scan_while.simps) (simp add: nth_append)
qed

lemma enum_scan_label:
  assumes "list_all (\<lambda>c. c \<noteq> CHR 0x27 \<and> c \<noteq> CHR 0x5C) label"
  shows "enum_scan (pre @ label @ CHR 0x27 # post) (length pre) b
           = Inr (length pre + length label, b)"
  using assms
proof (induction label arbitrary: pre)
  case Nil
  then show ?case by (subst enum_scan.simps) simp
next
  case (Cons x label)
  from Cons.prems have x: "x \<noteq> CHR 0x27" "x \<noteq> CHR 0x5C"
    and r: "list_all (\<lambda>c. c \<noteq> CHR 0x27 \<and> c \<noteq> CHR 0x5C) label" by simp_all
  from Cons.IH[OF r, of "pre @ [x]"] x show ?case
    by (subst enum_scan.simps) (simp add: nth_append)
qed

lemma consume_plain_choice:
  assumes "plain_choice (label, v)" and "\<not> isdigit c"
  shows "consume_enum_choice E (choice_text (label, v) @ c # post)
           = Inr ([CHR 0x27] @ label @ [CHR 0x27], v, c # post)"
proof -
  from assms have l: "list_all (\<lambda>c. c \<noteq> CHR 0x27 \<and> c \<noteq> CHR 0x5C) label"
    and d: "list_all isdigit v" by (simp_all add: plain_choice_def)
  let ?s = "choice_text (label, v) @ c # post"
  have s1: "?s = [CHR 0x27] @ label @ CHR 0x27 # ('' = '' @ v @ c # post)"
    by (simp add: choice_text_def)
  have s2: "?s = ([CHR 0x27] @ label @ [CHR 0x27] @ '' = '') @ v @ c # post"
    by (simp add: choice_text_def)
  have a: "enum_scan ?s 1 False = Inr (1 + length label, False)"
    unfolding s1 using enum_scan_label[OF l, of "[CHR 0x27]"] by simp
  have b: "scan_while isdigit ?s (length label + 5) = Inr (length label + 5 + length v)"
    unfolding s2 using scan_while_run[OF d assms(2), of "[CHR 0x27] @ label @ [CHR 0x27] @ '' = ''"]
    by (simp add: numeral_eq_Suc)
  have c: "take (length label + 2) ?s = [CHR 0x27] @ label @ [CHR 0x27]"
    by (simp add: choice_text_def numeral_eq_Suc)
  have e: "slice ?s (length label + 5) (length label + 5 + length v) = v"
    by (simp add: choice_text_def slice_def numeral_eq_Suc)
  have f: "drop (length label + 5 + length v) ?s = c # post"
    by (simp add: choice_text_def numeral_eq_Suc)
  show ?thesis
    using a b c e f
    by (simp add: consume_enum_choice_def Let_def add.commute numeral_eq_Suc)
qed

lemma enum_rest_plain:
  assumes "list_all plain_choice ps"
  shows "enum_rest E (concat (map (\<lambda>p. '', '' @ choice_text p) ps) @ '')'' @ rest) acc
           = Inr (acc @ map choice_field ps, '')'' @ rest)"
  using assms
proof (induction ps arbitrary: acc)
  case Nil
  show ?case by (subst enum_rest.simps) simp
next
  case (Cons p ps)
  obtain label v where p: "p = (label, v)" by (cases p)
  from Cons.prems p have pc: "plain_choice (label, v)" and r: "list_all plain_choice ps"
    by simp_all
  let ?tail = "concat (map (\<lambda>p. '', '' @ choice_text p) ps) @ '')'' @ rest"
  obtain c post where t: "?tail = c # post" and c: "\<not> isdigit c"
    by (cases ps) (auto simp: isdigit_def)
  have "consume_enum_choice E (choice_text (label, v) @ ?tail)
          = Inr ([CHR 0x27] @ label @ [CHR 0x27], v, ?tail)"
    unfolding t by (rule consume_plain_choice[OF pc c])
  with Cons.IH[OF r, of "acc @ [choice_field (label, v)]"] show ?case
    unfolding p
    by (subst enum_rest.simps) (simp add: choice_field_def)
qed

lemma join_concat: "join sep (x # xs) = x @ concat (map (\<lambda>y. sep @ y) xs)"
  by (induction xs arbitrary: x) simp_all

lemma enum_unsigned_values_decoded:
  assumes "pairs \<noteq> []" and "list_all plain_choice pairs" and "list_all isdigit w"
  shows "inspect_field_type E
           (''Enum'' @ w @ ''('' @ join '', '' (map choice_text pairs) @ '')'' @ rest) param
         = Inr ([''models.Enum'' @ w @ ''Field(''
                  @ merge_params [param, ''choices=['' @ join '', '' (map choice_field pairs) @ '']'']
                  @ '')''],
                rest)"
proof -
  from assms obtain label v ps where pairs: "pairs = (label, v) # ps"
    by (cases pairs) auto
  with assms have pc: "plain_choice (label, v)" and r: "list_all plain_choice ps" by simp_all
  let ?tail = "concat (map (\<lambda>p. '', '' @ choice_text p) ps) @ '')'' @ rest"
  let ?s = "''Enum'' @ w @ ''('' @ join '', '' (map choice_text pairs) @ '')'' @ rest"
  have s: "?s = ''Enum'' @ w @ CHR ''('' # (choice_text (label, v) @ ?tail)"
    by (simp add: pairs join_concat comp_def)
  have i: "scan_while isdigit ?s 4 = Inr (4 + length w)"
    unfolding s using scan_while_run[OF assms(3), of "CHR ''(''" "''Enum''"]
    by (simp add: isdigit_def numeral_eq_Suc)
  obtain c post where t: "?tail = c # post" and c: "\<not> isdigit c"
    by (cases ps) (auto simp: isdigit_def)
  have d: "drop (4 + length w + 1) ?s = choice_text (label, v) @ ?tail"
    unfolding s by (simp add: numeral_eq_Suc)
  have k: "take (4 + length w) ?s = ''Enum'' @ w"
    unfolding s by (simp add: numeral_eq_Suc)
  have ce: "consume_enum_choice E (choice_text (label, v) @ ?tail)
          = Inr ([CHR 0x27] @ label @ [CHR 0x27], v, ?tail)"
    unfolding t by (rule consume_plain_choice[OF pc c])
  have er: "enum_rest E ?tail [''('' @ v @ '', '' @ ([CHR 0x27] @ label @ [CHR 0x27]) @ '')'']
          = Inr ([choice_field (label, v)] @ map choice_field ps, '')'' @ rest)"
    using enum_rest_plain[OF r, of E rest "[choice_field (label, v)]"]
    by (simp add: choice_field_def)
  have sw: "startswith ?s ''Enum''" "\<not> startswith ?s ''LowCardinality''"
    "\<not> startswith ?s ''Nullable''" "\<not> startswith ?s ''FixedString''"
    "\<not> startswith ?s ''DateTime64''" "\<not> startswith ?s ''DateTime''"
    "\<not> startswith ?s ''Decimal''"
    by (simp_all add: startswith_def)
  show ?thesis
    apply (subst inspect_field_type.simps)
    apply (simp only: sw if_True if_False i sum.case d k ce er prod.case)
    apply (simp add: pairs)
    done
qed

text \<open>
  C4.  The claim: the reinterpretation of a label with byte escapes either replaces the
  label by the decoded text or keeps it in its escaped form, and never raises for a label
  that the scan of the enum accepts.  The scan accepts \<^verbatim>\<open>'\xzz'\<close> (it ends at index 5 with
  \<open>has_bytes\<close> set), but the evaluation of \<^verbatim>\<open>b'\xzz'\<close> raises \<open>SyntaxError\<close>, and the code
  handles \<open>UnicodeDecodeError\<close> only: the error leaves \<^verbatim>\<open>consume_enum_choice\<close> and the
  decoder.
\<close>

theorem malformed_escape_counterexample:
  "enum_scan malformed_choice 1 False = Inr (5, True)
   \<and> consume_enum_choice example_env malformed_choice = Inl SyntaxError
   \<and> inspect_field_type example_env (''Enum8('' @ malformed_choice) [] = Inl SyntaxError"
  by code_simp

lemma enum_scan_bounds:
  "enum_scan s k b = Inr (i, hb) \<Longrightarrow> k \<le> i \<and> i < length s"
proof (induction s k b rule: enum_scan.induct)
  case (1 s k has_bytes)
  note eq = "1.prems"[unfolded enum_scan.simps[of s k has_bytes]]
  from eq have lt: "k < length s" by (auto split: if_splits)
  show ?case
  proof (cases "s ! k = CHR 0x5C")
    case True
    with eq lt have lt2: "k + 1 < length s"
      and r: "enum_scan s (k + 2) (if s ! (k + 1) = CHR ''x'' then True else has_bytes)
                = Inr (i, hb)"
      by (auto split: if_splits)
    from "1.IH"(1)[OF lt True lt2 r] show ?thesis by simp
  next
    case False
    show ?thesis
    proof (cases "s ! k = CHR 0x27")
      case True
      with eq lt False show ?thesis by simp
    next
      case nq: False
      with eq lt False have r: "enum_scan s (k + 1) has_bytes = Inr (i, hb)" by simp
      from "1.IH"(2)[OF lt False nq r] show ?thesis by simp
    qed
  qed
qed

text \<open>
  C4, as the code has it.  Take a choice that starts with a quote, whose label holds a
  \<^verbatim>\<open>\x\<close> escape and ends at index \<open>i\<close>, and whose quoted text is a well-formed bytes
  literal, with the bytes \<open>bs\<close>.  Then the reinterpretation raises nothing: the name is
  \<open>repr\<close> of the decoded text when \<open>bs\<close> is UTF-8, and the letter \<^verbatim>\<open>b\<close> before the quoted
  text as it stood when it is not.  (A quoted text that is not a well-formed bytes
  literal raises \<open>SyntaxError\<close>, as above.)
\<close>

theorem label_recovery:
  assumes scan: "enum_scan s 1 False = Inr (i, True)"
    and quote: "hd s = CHR 0x27"
    and lit: "bytes_literal (translate_newlines (butlast (tl (take (i + 1) s)))) = Inr bs"
    and digits: "scan_while isdigit s (i + 4) = Inr j"
  shows "consume_enum_choice E s =
           Inr (case utf8_decode bs of
                  Some text \<Rightarrow> repr_str E text
                | None \<Rightarrow> ''b'' @ take (i + 1) s,
                slice s (i + 4) j, drop j s)"
proof -
  from enum_scan_bounds[OF scan] have b: "1 \<le> i" "i < length s" by simp_all
  then have "2 \<le> length (take (i + 1) s)" by simp
  moreover from b quote have "hd (take (i + 1) s) = CHR 0x27"
    by (cases s) simp_all
  ultimately have "eval_bytes_decode E (take (i + 1) s) =
      (case utf8_decode bs of None \<Rightarrow> Inl UnicodeDecodeError
        | Some text \<Rightarrow> Inr (repr_str E text))"
    using lit by (simp add: eval_bytes_decode_def)
  with scan digits show ?thesis
    by (simp add: consume_enum_choice_def Let_def numeral_eq_Suc split: option.splits)
qed

theorem label_recovery_witness:
  "enum_scan invalid_utf8_choice 1 False = Inr (5, True)
   \<and> hd invalid_utf8_choice = CHR 0x27
   \<and> bytes_literal (translate_newlines (butlast (tl (take (5 + 1) invalid_utf8_choice))))
       = Inr [CHR 0xFF]
   \<and> scan_while isdigit invalid_utf8_choice (5 + 4) = Inr 10
   \<and> consume_enum_choice example_env invalid_utf8_choice
       = Inr (''b'' @ [CHR 0x27, CHR 0x5C] @ ''xff'' @ [CHR 0x27], ''1'', '')'')"
proof -
  have 1: "enum_scan invalid_utf8_choice 1 False = Inr (5, True)" by code_simp
  have 2: "hd invalid_utf8_choice = CHR 0x27" by code_simp
  have 3: "bytes_literal (translate_newlines (butlast (tl (take (5 + 1) invalid_utf8_choice))))
             = Inr [CHR 0xFF]"
    by code_simp
  have 4: "scan_while isdigit invalid_utf8_choice (5 + 4) = Inr 10" by code_simp
  have 5: "utf8_decode [CHR 0xFF] = None" by code_simp
  have 6: "take (5 + 1) invalid_utf8_choice = [CHR 0x27, CHR 0x5C] @ ''xff'' @ [CHR 0x27]"
    by code_simp
  have 7: "slice invalid_utf8_choice (5 + 4) 10 = ''1''" by code_simp
  have 8: "drop 10 invalid_utf8_choice = '')''" by code_simp
  from label_recovery[OF 1 2 3 4, of example_env] 1 2 3 4 show ?thesis
    by (simp only: 5 6 7 8 option.case)
qed

text \<open>A label whose bytes are UTF-8 is replaced by the \<open>repr\<close> of its text: the bytes of
  \<^verbatim>\<open>'\x41\x42'\<close> are the text \<^verbatim>\<open>AB\<close>.\<close>

lemma label_decoded_example:
  "consume_enum_choice example_env ([CHR 0x27, CHR 0x5C] @ ''x41'' @ [CHR 0x5C] @ ''x42' = 7)'')
     = Inr ([CHR 0x27] @ ''AB'' @ [CHR 0x27], ''7'', '')'')"
  by code_simp


section \<open>Properties of the loop over the columns\<close>

text \<open>
  C2.  The claim: when the type of one column cannot be decoded, the failure is caught at
  that column and recorded against it, and the remaining columns of the table are still
  emitted.  In \<open>example_rows\<close> the second of three columns fails: the loop has yielded the
  line of the first column, the exception leaves the loop, and no line is yielded for the
  second or the third column.  The exception leaves the body of the table loop as well,
  whose \<^verbatim>\<open>try\<close> statement has ended before the class line.
\<close>

theorem column_failure_counterexample:
  "table_columns example_command example_rows no_columns =
     ([''    x = models.Int32Field()''],
      \<lparr>used_column_names = [''x'', ''e''],
       column_to_field_name = [(''x'', ''x''), (''e'', ''e'')]\<rparr>,
      Some IndexError)
   \<and> inspect_table example_command ''t'' (Inr example_ddl) (Inr example_rows) None =
     ([[], [], ''class T(models.ClickhouseModel):'', ''    x = models.Int32Field()''],
      Some IndexError)"
  by code_simp

lemma table_columns_append:
  "table_columns C (xs @ ys) st =
     (case table_columns C xs st of
        (l1, st1, Some e) \<Rightarrow> (l1, st1, Some e)
      | (l1, st1, None) \<Rightarrow>
          (case table_columns C ys st1 of (l2, st2, err) \<Rightarrow> (l1 @ l2, st2, err)))"
proof (induction xs arbitrary: st)
  case Nil
  show ?case by (simp split: prod.splits)
next
  case (Cons row rows)
  show ?case
    by (simp add: Cons.IH Let_def split: prod.splits sum.splits option.splits)
qed

text \<open>
  C2, as the code has it.  A failure to decode the type of a column is not caught in the
  loop over the columns: the lines of the columns before it have been yielded, the
  exception of the decoder leaves the loop, and neither the failing column nor any column
  after it is yielded, whatever the columns after it are.
\<close>

theorem column_failure_propagates:
  assumes pre: "table_columns C pre st = (lines, st1, None)"
    and norm: "normalize_col_name C (row_name row) (used_column_names st1) False
                 = (att_name, extra_params, comment_notes)"
    and fail: "inspect_field_type (lang C) (row_type_code row) (column_param C row extra_params)
                 = Inl e"
  shows "table_columns C (pre @ row # post) st =
           (lines,
            \<lparr>used_column_names = used_column_names st1 @ [att_name],
             column_to_field_name =
               dict_set (column_to_field_name st1) (row_name row) att_name\<rparr>,
            Some e)"
  using pre norm fail by (simp add: table_columns_append Let_def)

theorem column_failure_propagates_witness:
  "table_columns example_command [example_rows ! 0] no_columns
     = ([''    x = models.Int32Field()''],
        \<lparr>used_column_names = [''x''], column_to_field_name = [(''x'', ''x'')]\<rparr>, None)
   \<and> normalize_col_name example_command (row_name (example_rows ! 1)) [''x''] False
       = (''e'', [], [])
   \<and> inspect_field_type (lang example_command) (row_type_code (example_rows ! 1))
         (column_param example_command (example_rows ! 1) []) = Inl IndexError
   \<and> table_columns example_command ([example_rows ! 0] @ example_rows ! 1 # [example_rows ! 2])
         no_columns
       = ([''    x = models.Int32Field()''],
          \<lparr>used_column_names = [''x'', ''e''],
           column_to_field_name = [(''x'', ''x''), (''e'', ''e'')]\<rparr>,
          Some IndexError)"
proof -
  let ?st1 = "\<lparr>used_column_names = [''x''], column_to_field_name = [(''x'', ''x'')]\<rparr>"
  have 1: "table_columns example_command [example_rows ! 0] no_columns
             = ([''    x = models.Int32Field()''], ?st1, None)"
    by code_simp
  have 2: "normalize_col_name example_command (row_name (example_rows ! 1)) [''x''] False
             = (''e'', [], [])"
    by code_simp
  then have n2: "normalize_col_name example_command (row_name (example_rows ! 1))
             (used_column_names ?st1) False = (''e'', [], [])"
    by simp
  have 3: "inspect_field_type (lang example_command) (row_type_code (example_rows ! 1))
             (column_param example_command (example_rows ! 1) []) = Inl IndexError"
    by code_simp
  have 4: "\<lparr>used_column_names = used_column_names ?st1 @ [''e''],
            column_to_field_name =
              dict_set (column_to_field_name ?st1) (row_name (example_rows ! 1)) ''e''\<rparr>
           = \<lparr>used_column_names = [''x'', ''e''],
              column_to_field_name = [(''x'', ''x''), (''e'', ''e'')]\<rparr>"
    by code_simp
  have 5: "table_columns example_command
             ([example_rows ! 0] @ example_rows ! 1 # [example_rows ! 2]) no_columns
           = ([''    x = models.Int32Field()''],
              \<lparr>used_column_names = [''x'', ''e''],
               column_to_field_name = [(''x'', ''x''), (''e'', ''e'')]\<rparr>,
              Some IndexError)"
    using column_failure_propagates[OF 1 n2 3, of "[example_rows ! 2]"]
    by (simp only: 4)
  from 1 2 3 5 show ?thesis by (intro conjI)
qed

text \<open>The body of the table loop does not catch it either.\<close>

lemma inspect_table_propagates:
  assumes "table_columns C rows \<lparr>used_column_names = [], column_to_field_name = []\<rparr>
             = (lines, st, Some e)"
  shows "inspect_table C table_name (Inr table_sql) (Inr rows) info =
           ([[], [], ''class '' @ table2model table_name @ ''(models.ClickhouseModel):'']
              @ lines,
            Some e)"
  using assms by (simp add: inspect_table_def Let_def)


section \<open>Properties of the introspection\<close>


lemma findall_take:
  "pat s = (g, r) # others \<Longrightarrow> length r < length s \<Longrightarrow>
   findall_from pat False s = g # findall_from pat False r"
  by (subst findall_from.simps) simp



text \<open>
  C6.  The claim: the CHECK scan on the fragment
  \<^verbatim>\<open>CONSTRAINT `my check` CHECK (x > 0),\<close> yields exactly one constraint, named
  \<^verbatim>\<open>my check\<close>, of the check kind, with the text \<^verbatim>\<open>CHECK (x > 0)\<close>.  On the fragment as
  it is printed, with nothing after the comma, the scan finds nothing: the pattern ends
  with \<^verbatim>\<open>,?\n\<close> and the text has no line feed.
\<close>

theorem check_fragment_alone_counterexample:
  "get_constraints ''CONSTRAINT `my check` CHECK (x > 0),'' ''my check'' = None"
proof -
  have 1: "findall constraint_pattern ''CONSTRAINT `my check` CHECK (x > 0),'' = []"
    by code_simp
  have 2: "findall index_pattern ''CONSTRAINT `my check` CHECK (x > 0),'' = []"
    by code_simp
  show ?thesis
    by (simp only: get_constraints_def 1 2) (simp add: add_checks_def add_indexes_def)
qed

lemma my_check_line_matches:
  "constraint_pattern (''CONSTRAINT `my check` CHECK (x > 0),'' @ CHR 0x0A # rest)
     = [(([CHR 0x60], ''my check'', ''CHECK (x > 0)''), rest),
        (([CHR 0x60], ''my check'', ''CHECK (x > 0),''), rest)]"
  by code_simp simp

lemma my_check_line_found_first:
  "findall constraint_pattern (''CONSTRAINT `my check` CHECK (x > 0),'' @ CHR 0x0A # rest)
     = ([CHR 0x60], ''my check'', ''CHECK (x > 0)'') # findall constraint_pattern rest"
  unfolding findall_def
  by (rule findall_take[where pat=constraint_pattern, OF my_check_line_matches]) simp

text \<open>
  C6, as the code has it.  On the fragment followed by a line feed, the extraction yields
  exactly one constraint: its name is \<^verbatim>\<open>my check\<close>, it is of the check kind (\<open>check\<close> is
  true, \<open>index\<close> is false), and its definition is \<^verbatim>\<open>CHECK (x > 0)\<close>, without the comma.
  In every text that starts with the fragment and a line feed, the CHECK scan finds this
  constraint first and goes on with the text after the line feed.
\<close>

theorem backtick_check_constraint:
  "get_constraints (''CONSTRAINT `my check` CHECK (x > 0),'' @ [CHR 0x0A]) =
     [''my check'' \<mapsto>
        \<lparr>c_columns = [], c_orders = None, c_primary_key = False, c_unique = False,
         c_foreign_key = None, c_check = True, c_index = False, c_type = None,
         c_definition = ''CHECK (x > 0)'', c_options = None\<rparr>]
   \<and> findall constraint_pattern (''CONSTRAINT `my check` CHECK (x > 0),'' @ CHR 0x0A # rest)
       = ([CHR 0x60], ''my check'', ''CHECK (x > 0)'') # findall constraint_pattern rest"
proof -
  have 1: "findall constraint_pattern (''CONSTRAINT `my check` CHECK (x > 0),'' @ [CHR 0x0A])
             = [([CHR 0x60], ''my check'', ''CHECK (x > 0)'')]"
    by code_simp
  have 2: "findall index_pattern (''CONSTRAINT `my check` CHECK (x > 0),'' @ [CHR 0x0A]) = []"
    by code_simp
  have a: "get_constraints (''CONSTRAINT `my check` CHECK (x > 0),'' @ [CHR 0x0A]) =
     [''my check'' \<mapsto>
        \<lparr>c_columns = [], c_orders = None, c_primary_key = False, c_unique = False,
         c_foreign_key = None, c_check = True, c_index = False, c_type = None,
         c_definition = ''CHECK (x > 0)'', c_options = None\<rparr>]"
    by (simp only: get_constraints_def 1 2)
       (simp add: add_checks_def add_indexes_def check_entry_def)
  from a my_check_line_found_first show ?thesis by (intro conjI)
qed











text \<open>When more text follows the empty parentheses on the same line, the lazy
  \<^verbatim>\<open>.+?\<close> can run on to a later parenthesis that is followed by a granularity: the match
  then has the name and the engine of the first clause, and a definition that holds both
  clauses.\<close>

lemma empty_arguments_run_on:
  "get_constraints
     ''INDEX idx x TYPE minmax() GRANULARITY 4, INDEX b y TYPE set(1) GRANULARITY 2''
     = [''idx'' \<mapsto>
        \<lparr>c_columns = [], c_orders = Some [], c_primary_key = False, c_unique = False,
         c_foreign_key = None, c_check = False, c_index = True, c_type = Some ''minmax'',
         c_definition =
           ''x TYPE minmax() GRANULARITY 4, INDEX b y TYPE set(1) GRANULARITY 2'',
         c_options = None\<rparr>]"
proof -
  have c: "findall constraint_pattern
             ''INDEX idx x TYPE minmax() GRANULARITY 4, INDEX b y TYPE set(1) GRANULARITY 2''
           = []"
    by code_simp
  have i: "findall index_pattern
             ''INDEX idx x TYPE minmax() GRANULARITY 4, INDEX b y TYPE set(1) GRANULARITY 2''
           = [([], ''idx'',
               ''x TYPE minmax() GRANULARITY 4, INDEX b y TYPE set(1) GRANULARITY 2'',
               ''minmax'')]"
    by code_simp
  show ?thesis
    by (simp only: get_constraints_def c i)
       (simp add: add_checks_def add_indexes_def index_entry_def)
qed

text \<open>Every match of the pattern for indexes has a character between the parentheses of
  the engine.\<close>

lemma rx_plus_lazy_nonempty: "(m, r) \<in> set (rx_plus_lazy P s) \<Longrightarrow> m \<noteq> []"
  by (auto simp: rx_plus_lazy_def rx_seq_def rx_one_def set_list_bind split: list.splits if_splits)

lemma index_match_has_arguments:
  assumes "((g1, g2, d, g4), r) \<in> set (index_pattern s)"
  shows "\<exists>expr args gran.
           d = expr @ '' TYPE '' @ g4 @ ''('' @ args @ '')'' @ '' GRANULARITY '' @ gran
           \<and> args \<noteq> []"
proof -
  from assms obtain expr args gran s9 s10 where
    d: "d = expr @ '' TYPE '' @ g4 @ (''('' @ args @ '')'') @ ('' GRANULARITY '' @ gran)"
    and a: "(args, s10) \<in> set (rx_plus_lazy re_any s9)"
    by (auto simp: index_pattern_def rx_seq_def rx_lit_def set_list_bind split: if_splits)
  from a have "args \<noteq> []" by (rule rx_plus_lazy_nonempty)
  with d show ?thesis by auto
qed

text \<open>Writing the matches of a scan into the dictionary, one after the other: the entry
  of a name is that of the last match with the name.\<close>

lemma fold_update_find:
  "fold (\<lambda>x m. m(key x \<mapsto> val x)) xs m n =
     (case find (\<lambda>x. key x = n) (rev xs) of Some x \<Rightarrow> Some (val x) | None \<Rightarrow> m n)"
  by (induction xs arbitrary: m rule: rev_induct) auto

lemma add_checks_find:
  "add_checks ms m n =
     (case find (\<lambda>(backtick, name, definition'). name = n) (rev ms) of
        Some (backtick, name, definition') \<Rightarrow> Some (check_entry definition')
      | None \<Rightarrow> m n)"
proof -
  have "add_checks ms m = fold (\<lambda>x m. m(fst (snd x) \<mapsto> check_entry (snd (snd x)))) ms m"
    by (simp add: add_checks_def case_prod_unfold)
  moreover have "(\<lambda>(backtick, name, definition'). name = n) = (\<lambda>x. fst (snd x) = n)"
    by (simp add: case_prod_unfold)
  ultimately show ?thesis
    by (simp add: fold_update_find case_prod_unfold split: option.splits)
qed

lemma add_indexes_find:
  "add_indexes ms m n =
     (case find (\<lambda>(backtick, name, definition', type'). name = n) (rev ms) of
        Some (backtick, name, definition', type') \<Rightarrow> Some (index_entry definition' type')
      | None \<Rightarrow> m n)"
proof -
  have "add_indexes ms m =
          fold (\<lambda>x m. m(fst (snd x) \<mapsto> index_entry (fst (snd (snd x))) (snd (snd (snd x)))))
            ms m"
    by (simp add: add_indexes_def case_prod_unfold)
  moreover have "(\<lambda>(backtick, name, definition', type'). name = n) = (\<lambda>x. fst (snd x) = n)"
    by (simp add: case_prod_unfold)
  ultimately show ?thesis
    by (simp add: fold_update_find case_prod_unfold split: option.splits)
qed

text \<open>
  C7.  The claim: when two clauses carry the same name, the entry is the definition of
  the one that stands later in the text, also when one is a CHECK clause and the other an
  INDEX clause.  In \<open>example_ddl\<close> the constraint \<^verbatim>\<open>a\<close> stands after the index \<^verbatim>\<open>a\<close>, and
  both scans find their clause, yet the entry of \<^verbatim>\<open>a\<close> is the index: the scan for indexes
  runs after the scan for constraints and writes over its entries.
\<close>

theorem later_check_clause_counterexample:
  "findall index_pattern example_ddl = [([], ''a'', ''x TYPE set(100) GRANULARITY 4'', ''set'')]
   \<and> findall constraint_pattern example_ddl = [([], ''a'', ''CHECK x > 0'')]
   \<and> get_constraints example_ddl ''a''
       = Some (index_entry ''x TYPE set(100) GRANULARITY 4'' ''set'')
   \<and> get_constraints example_ddl ''a'' \<noteq> Some (check_entry ''CHECK x > 0'')"
proof -
  have c: "findall constraint_pattern example_ddl = [([], ''a'', ''CHECK x > 0'')]"
    by code_simp
  have i: "findall index_pattern example_ddl
             = [([], ''a'', ''x TYPE set(100) GRANULARITY 4'', ''set'')]"
    by code_simp
  have "get_constraints example_ddl ''a''
          = Some (index_entry ''x TYPE set(100) GRANULARITY 4'' ''set'')"
    by (simp only: get_constraints_def c i) (simp add: add_checks_def add_indexes_def)
  with c i show ?thesis
    by (simp add: index_entry_def check_entry_def)
qed

text \<open>
  C7, as the code has it.  For every text and every name the dictionary has at most one
  entry, and no error is raised for a name that occurs twice.  If an INDEX clause with
  the name was found, the entry is the index definition of the last such clause in the
  text; otherwise, if a CHECK clause with the name was found, it is the check definition
  of the last such clause; otherwise there is no entry.  So between two clauses of one
  kind the later one in the text wins, and an INDEX clause wins over a CHECK clause of
  the same name wherever the two stand.
\<close>

theorem last_match_wins_index_over_check:
  "get_constraints table_sql n =
     (case find (\<lambda>(backtick, name, definition', type'). name = n)
             (rev (findall index_pattern table_sql)) of
        Some (backtick, name, definition', type') \<Rightarrow> Some (index_entry definition' type')
      | None \<Rightarrow>
          (case find (\<lambda>(backtick, name, definition'). name = n)
                  (rev (findall constraint_pattern table_sql)) of
             Some (backtick, name, definition') \<Rightarrow> Some (check_entry definition')
           | None \<Rightarrow> None))"
  by (simp add: get_constraints_def add_indexes_find add_checks_find split: option.splits)

text \<open>Two constraints of one name: the later one is the entry.\<close>

lemma later_check_clause_wins:
  "findall constraint_pattern check_ddl =
     [([CHR 0x60], ''my check'', ''CHECK (x > 0)''), ([CHR 0x60], ''my check'', ''CHECK (x > 1)'')]
   \<and> get_constraints check_ddl = [''my check'' \<mapsto> check_entry ''CHECK (x > 1)'']"
proof -
  have c: "findall constraint_pattern check_ddl =
     [([CHR 0x60], ''my check'', ''CHECK (x > 0)''), ([CHR 0x60], ''my check'', ''CHECK (x > 1)'')]"
    by code_simp
  have i: "findall index_pattern check_ddl = []"
    by code_simp
  have "get_constraints check_ddl = [''my check'' \<mapsto> check_entry ''CHECK (x > 1)'']"
    by (simp only: get_constraints_def c i) (simp add: add_checks_def add_indexes_def)
  with c show ?thesis by simp
qed

text \<open>
  C10.  For every type string \<open>T\<close> and every description, the field type found for
  \<^verbatim>\<open>"Nullable(" + T + ")"\<close> is the one found for \<open>T\<close>, and the first lookup raises
  \<open>KeyError\<close> exactly when the second does.
\<close>

theorem nullable_wrapper_same_field_type:
  "get_field_type (''Nullable('' @ T @ '')'') description = get_field_type T description"
  by (subst get_field_type.simps) (simp add: startswith_def)

lemma nullable_int16_field_type:
  "get_field_type ''Nullable(Int16)'' d = Inr ''SmallIntegerField''
   \<and> get_field_type ''Int16'' d = Inr ''SmallIntegerField''"
  by code_simp

end
